(* ===== verification/Prelude.thy ===== *)
theory Prelude
  imports Main "HOL-Library.Sublist"
begin

text \<open>
  Shared vocabulary of the development.  JavaScript strings are modelled as
  \<open>string\<close> (a list of \<open>char\<close>) holding the UTF-8 bytes of the source
  text, so the Portuguese letters of the program's literals are written with
  the byte abbreviations below.  JavaScript's truthiness of a value of type
  \<open>string | null | undefined\<close> and its template interpolation of such a
  value are written out as functions, since the program branches on both.
  The collections \<open>wizard_simps\<close> and \<open>gateway_simps\<close> gather the
  characteristic equations each component proof uses.
\<close>

named_theorems wizard_simps "equations of the wizard handlers"
named_theorems gateway_simps "equations of the generation gateway"

subsection \<open>UTF-8 bytes of the non-ASCII letters of the program's literals\<close>

abbreviation a_acute :: string where "a_acute \<equiv> [CHR 0xC3, CHR 0xA1]"
abbreviation a_circ :: string where "a_circ \<equiv> [CHR 0xC3, CHR 0xA2]"
abbreviation a_tilde :: string where "a_tilde \<equiv> [CHR 0xC3, CHR 0xA3]"
abbreviation c_cedil :: string where "c_cedil \<equiv> [CHR 0xC3, CHR 0xA7]"
abbreviation e_acute :: string where "e_acute \<equiv> [CHR 0xC3, CHR 0xA9]"
abbreviation e_circ :: string where "e_circ \<equiv> [CHR 0xC3, CHR 0xAA]"
abbreviation E_circ :: string where "E_circ \<equiv> [CHR 0xC3, CHR 0x8A]"
abbreviation i_acute :: string where "i_acute \<equiv> [CHR 0xC3, CHR 0xAD]"
abbreviation o_acute :: string where "o_acute \<equiv> [CHR 0xC3, CHR 0xB3]"
abbreviation o_circ :: string where "o_circ \<equiv> [CHR 0xC3, CHR 0xB4]"
abbreviation o_tilde :: string where "o_tilde \<equiv> [CHR 0xC3, CHR 0xB5]"

abbreviation nl :: string where "nl \<equiv> [CHR 0x0A]"

subsection \<open>JavaScript truthiness and interpolation\<close>

text \<open>\<open>if (x)\<close> on a \<open>string | null | undefined\<close>: null, undefined and the
  empty string are falsy, every other string is truthy.\<close>

fun truthy_opt :: "string option \<Rightarrow> bool" where
  "truthy_opt None = False"
| "truthy_opt (Some s) = (s \<noteq> [])"

text \<open>\<open>`${x}`\<close> on a \<open>string | null\<close>: null prints as \<open>null\<close>.\<close>

fun interp_opt :: "string option \<Rightarrow> string" where
  "interp_opt None = ''null''"
| "interp_opt (Some s) = s"

text \<open>A JavaScript object literal with repeated keys, and the object
  \<open>JSON.parse\<close> builds from text with repeated keys, keep the last binding
  of each key: lookup in the reversed association list.\<close>

definition last_binding :: "('k \<times> 'v) list \<Rightarrow> 'k \<Rightarrow> 'v option" where
  "last_binding kvs k = map_of (rev kvs) k"

subsection \<open>Computations that may throw\<close>

text \<open>A JavaScript computation that may throw is a value of \<open>'e + 'a\<close>,
  \<open>Inl\<close> the exception.  \<open>bind_sum\<close> runs the rest only when the first
  part returned; \<open>traverse_sum\<close> runs a callback on the elements in order
  and stops at the first exception, as \<open>Array.prototype.map\<close> does.\<close>

definition bind_sum :: "'e + 'a \<Rightarrow> ('a \<Rightarrow> 'e + 'b) \<Rightarrow> 'e + 'b" where
  "bind_sum m f = (case m of Inl e \<Rightarrow> Inl e | Inr a \<Rightarrow> f a)"

fun traverse_sum :: "('a \<Rightarrow> 'e + 'b) \<Rightarrow> 'a list \<Rightarrow> 'e + 'b list" where
  "traverse_sum f [] = Inr []"
| "traverse_sum f (x # xs) = bind_sum (f x) (\<lambda>y. bind_sum (traverse_sum f xs) (\<lambda>ys. Inr (y # ys)))"

subsection \<open>Decimal text of numbers\<close>

text \<open>\<open>String(n)\<close> of an integer, as React prints a number child and a
  template literal interpolates it.\<close>

fun nat_str :: "nat \<Rightarrow> string" where
  "nat_str n = (if n < 10 then [''0123456789'' ! n] else nat_str (n div 10) @ [''0123456789'' ! (n mod 10)])"

declare nat_str.simps [simp del]

definition int_str :: "int \<Rightarrow> string" where
  "int_str i = (if i < 0 then CHR ''-'' # nat_str (nat (- i)) else nat_str (nat i))"

subsection \<open>Lemmas on truthiness\<close>

lemma truthy_opt_iff: "truthy_opt x \<longleftrightarrow> (\<exists>s. x = Some s \<and> s \<noteq> [])"
  by (cases x) auto

lemma truthy_opt_map_nonempty:
  "(\<And>v. f v \<noteq> []) \<Longrightarrow> truthy_opt (map_option f x) \<longleftrightarrow> x \<noteq> None"
  by (cases x) auto

subsection \<open>Lists and association lists\<close>

lemma last_binding_Nil [simp]: "last_binding [] k = None"
  by (simp add: last_binding_def)

lemma last_binding_snoc [simp]:
  "last_binding (kvs @ [(k', v)]) k = (if k = k' then Some v else last_binding kvs k)"
  by (simp add: last_binding_def)

lemma last_binding_distinct:
  "distinct (map fst kvs) \<Longrightarrow> last_binding kvs k = map_of kvs k"
proof (induction kvs rule: rev_induct)
  case Nil
  then show ?case by simp
next
  case (snoc kv kvs)
  then show ?case
    by (cases kv) (auto simp: map_of_append map_add_def map_of_eq_None_iff image_iff split: option.splits)
qed

lemma those_map_Some_iff:
  "(\<exists>ys. those (map f xs) = Some ys) \<longleftrightarrow> (\<forall>x\<in>set xs. \<exists>y. f x = Some y)"
  by (induction xs) (auto split: option.splits)

lemma those_map_Some [simp]: "those (map (\<lambda>x. Some (f x)) xs) = Some (map f xs)"
  by (induction xs) auto
lemma set_update_cases: "x \<in> set (xs[k := y]) \<Longrightarrow> x = y \<or> x \<in> set xs"
  using set_update_subset_insert by fastforce

lemma map_index_eq:
  assumes "distinct xs" and "k < length xs"
  shows "map (\<lambda>x. c (xs ! k = x)) xs = map (\<lambda>i. c (i = k)) [0..<length xs]"
proof (rule nth_equalityI)
  fix i assume "i < length (map (\<lambda>x. c (xs ! k = x)) xs)"
  then show "map (\<lambda>x. c (xs ! k = x)) xs ! i = map (\<lambda>i. c (i = k)) [0..<length xs] ! i"
    using assms nth_eq_iff_index_eq [of xs k i] by (cases "i = k") auto
qed simp

subsection \<open>Lemmas on throwing computations\<close>

lemma bind_sum_simps [simp]: "bind_sum (Inl e) f = Inl e" "bind_sum (Inr a) f = f a"
  by (simp_all add: bind_sum_def)

lemma bind_sum_Inr_iff: "bind_sum m f = Inr b \<longleftrightarrow> (\<exists>a. m = Inr a \<and> f a = Inr b)"
  by (cases m) simp_all

lemma bind_sum_isl: "isl m \<Longrightarrow> isl (bind_sum m f)"
  by (cases m) simp_all

lemma traverse_sum_cong [fundef_cong]:
  "xs = ys \<Longrightarrow> (\<And>x. x \<in> set ys \<Longrightarrow> f x = g x) \<Longrightarrow> traverse_sum f xs = traverse_sum g ys"
  by (induction ys arbitrary: xs) auto

lemma traverse_sum_Inr_map:
  "(\<And>x. x \<in> set xs \<Longrightarrow> f x = Inr (g x)) \<Longrightarrow> traverse_sum f xs = Inr (map g xs)"
  by (induction xs) simp_all

lemma traverse_sum_isl: "x \<in> set xs \<Longrightarrow> isl (f x) \<Longrightarrow> isl (traverse_sum f xs)"
proof (induction xs)
  case (Cons y ys)
  then show ?case by (cases "f y") (auto intro: bind_sum_isl)
qed simp

lemma nat_str_digit [simp]: "n < 10 \<Longrightarrow> nat_str n = [''0123456789'' ! n]"
  by (simp add: nat_str.simps)

end
