(* ===== verification/Types.thy ===== *)
theory Types
  imports Prelude
begin

text \<open>
  The data model of \<open>src/types.ts\<close>: the three string enums of the user's
  choices with their string values, the preference, exercise and plan
  interfaces as records, and the numeric enum \<open>AppStep\<close> of the wizard's
  screens.  \<open>Object.values\<close> of a string enum lists its values in
  declaration order; the \<open>*_values\<close> lists are that.  \<open>AppStep\<close> is a
  numeric enum and \<open>App.tsx\<close> compares and decrements it as a number, so it
  carries its number (\<open>AppStep_num\<close>), the member of a number
  (\<open>AppStep_of_num\<close>) and the order of the numbers (a \<open>linorder\<close>
  instance).
\<close>

subsection \<open>The choice enums\<close>

datatype ExperienceLevel = Iniciante | Intermediario | Avancado

primrec ExperienceLevel_value :: "ExperienceLevel \<Rightarrow> string" where
  "ExperienceLevel_value Iniciante = ''Iniciante''"
| "ExperienceLevel_value Intermediario = ''Intermedi'' @ a_acute @ ''rio''"
| "ExperienceLevel_value Avancado = ''Avan'' @ c_cedil @ ''ado''"

definition ExperienceLevel_values :: "string list" where
  "ExperienceLevel_values = map ExperienceLevel_value [Iniciante, Intermediario, Avancado]"

datatype FitnessGoal = Hipertrofia | PerdaGordura | Forca | Resistencia | Condicionamento

primrec FitnessGoal_value :: "FitnessGoal \<Rightarrow> string" where
  "FitnessGoal_value Hipertrofia = ''Hipertrofia Muscular''"
| "FitnessGoal_value PerdaGordura = ''Perda de Gordura''"
| "FitnessGoal_value Forca = ''Ganho de For'' @ c_cedil @ ''a''"
| "FitnessGoal_value Resistencia = ''Resist'' @ e_circ @ ''ncia Muscular''"
| "FitnessGoal_value Condicionamento = ''Condicionamento F'' @ i_acute @ ''sico''"

definition FitnessGoal_values :: "string list" where
  "FitnessGoal_values = map FitnessGoal_value
     [Hipertrofia, PerdaGordura, Forca, Resistencia, Condicionamento]"

datatype MuscleGroup = Peito | Costas | Pernas | Ombros | Biceps | Triceps | Abdomen
  | FullBody | UpperBody | LowerBody

primrec MuscleGroup_value :: "MuscleGroup \<Rightarrow> string" where
  "MuscleGroup_value Peito = ''Peito''"
| "MuscleGroup_value Costas = ''Costas''"
| "MuscleGroup_value Pernas = ''Pernas''"
| "MuscleGroup_value Ombros = ''Ombros''"
| "MuscleGroup_value Biceps = ''B'' @ i_acute @ ''ceps''"
| "MuscleGroup_value Triceps = ''Tr'' @ i_acute @ ''ceps''"
| "MuscleGroup_value Abdomen = ''Abd'' @ o_circ @ ''men''"
| "MuscleGroup_value FullBody = ''Corpo Completo (Full Body)''"
| "MuscleGroup_value UpperBody = ''Membros Superiores''"
| "MuscleGroup_value LowerBody = ''Membros Inferiores''"

definition MuscleGroup_values :: "string list" where
  "MuscleGroup_values = map MuscleGroup_value
     [Peito, Costas, Pernas, Ombros, Biceps, Triceps, Abdomen, FullBody, UpperBody, LowerBody]"

subsection \<open>Preferences, exercises, plans\<close>

record UserPreferences =
  level :: "ExperienceLevel option"
  goal :: "FitnessGoal option"
  muscleGroup :: "MuscleGroup option"

record Exercise =
  name :: string
  sets :: string
  reps :: string
  rest :: string
  notes_text :: string
  imageUrl :: "string option"

record WorkoutPlan =
  title :: string
  description :: string
  estimatedDuration :: string
  frequencyRecommendation :: string
  warmup :: "string list"
  exercises :: "Exercise list"
  cooldown :: "string list"

text \<open>The precondition of plan generation: every field chosen.\<close>

definition prefs_complete :: "UserPreferences \<Rightarrow> bool" where
  "prefs_complete p \<longleftrightarrow> level p \<noteq> None \<and> goal p \<noteq> None \<and> muscleGroup p \<noteq> None"

subsection \<open>The wizard's steps\<close>

datatype AppStep = Intro | SelectLevel | SelectGoal | SelectMuscle | Loading | Result | Error

primrec AppStep_num :: "AppStep \<Rightarrow> nat" where
  "AppStep_num Intro = 0"
| "AppStep_num SelectLevel = 1"
| "AppStep_num SelectGoal = 2"
| "AppStep_num SelectMuscle = 3"
| "AppStep_num Loading = 4"
| "AppStep_num Result = 5"
| "AppStep_num Error = 6"

text \<open>The members in the order of their numbers: the member of number
  \<open>n\<close> is \<open>AppStep_members ! n\<close>, defined for \<open>n \<le> 6\<close>.\<close>

definition AppStep_members :: "AppStep list" where
  "AppStep_members = [Intro, SelectLevel, SelectGoal, SelectMuscle, Loading, Result, Error]"

definition AppStep_of_num :: "nat \<Rightarrow> AppStep" where
  "AppStep_of_num n = AppStep_members ! n"

instantiation AppStep :: linorder
begin

definition less_eq_AppStep :: "AppStep \<Rightarrow> AppStep \<Rightarrow> bool" where
  "less_eq_AppStep x y \<longleftrightarrow> AppStep_num x \<le> AppStep_num y"

definition less_AppStep :: "AppStep \<Rightarrow> AppStep \<Rightarrow> bool" where
  "less_AppStep x y \<longleftrightarrow> AppStep_num x < AppStep_num y"

instance
proof
  fix x y :: AppStep
  show "x \<le> y \<Longrightarrow> y \<le> x \<Longrightarrow> x = y"
    by (cases x; cases y) (simp_all add: less_eq_AppStep_def)
qed (auto simp: less_eq_AppStep_def less_AppStep_def)

end

lemma AppStep_num_bound: "AppStep_num s \<le> 6"
  by (cases s) simp_all

lemma AppStep_of_num_num [simp]: "AppStep_of_num (AppStep_num s) = s"
  by (cases s) (simp_all add: AppStep_of_num_def AppStep_members_def)

lemma AppStep_num_inject [simp]: "AppStep_num x = AppStep_num y \<longleftrightarrow> x = y"
  by (metis AppStep_of_num_num)

lemma AppStep_of_num_simps [simp]:
  "AppStep_of_num 0 = Intro" "AppStep_of_num (Suc 0) = SelectLevel" "AppStep_of_num 1 = SelectLevel"
  "AppStep_of_num (Suc (Suc 0)) = SelectGoal" "AppStep_of_num 2 = SelectGoal"
  by (simp_all add: AppStep_of_num_def AppStep_members_def)

lemma enum_values_nonempty [simp]:
  "ExperienceLevel_value l \<noteq> []" "FitnessGoal_value g \<noteq> []" "MuscleGroup_value m \<noteq> []"
    apply (cases l; simp)
   apply (cases g; simp)
  by (cases m; simp)

lemma truthy_choice [simp]:
  "truthy_opt (map_option ExperienceLevel_value x) \<longleftrightarrow> x \<noteq> None"
  "truthy_opt (map_option FitnessGoal_value y) \<longleftrightarrow> y \<noteq> None"
  "truthy_opt (map_option MuscleGroup_value z) \<longleftrightarrow> z \<noteq> None"
  by (simp_all add: truthy_opt_map_nonempty)

lemmas AppStep_order = less_eq_AppStep_def less_AppStep_def

end
