(* ===== verification/Gateway.thy ===== *)
theory Gateway
  imports Types "HOL-Library.Monad_Syntax"
begin

text \<open>
  The generation gateway of \<open>src/services/geminiService.ts\<close>.
  \<^item> JSON values (\<open>json\<close>), the result of \<open>JSON.parse\<close>; objects are
    association lists and a key bound twice reads its last binding, as
    \<open>JSON.parse\<close> builds them.
  \<^item> The response schema \<open>workoutSchema\<close> (lines 6--51) as a value of the
    \<open>schema\<close> datatype, and \<open>conforms\<close>, what it means for a JSON value to
    satisfy a schema.
  \<^item> \<open>plan_of_json\<close>, the reading of a JSON value as the \<open>WorkoutPlan\<close>
    interface of \<open>types.ts\<close> that the cast \<open>as WorkoutPlan\<close> claims.
  \<^item> \<open>generateWorkoutPlan\<close> (lines 53--93) split at its \<open>await\<close>: the
    request built from the preferences, and the handling of the service's
    answer.  The service and \<open>JSON.parse\<close> are parameters: the program only
    calls them.
  \<^item> \<open>generateExerciseImage\<close> (lines 95--127), with the image service as a
    parameter.
  A rejected promise of the service is \<open>Inl\<close> of its message.
\<close>

subsection \<open>JSON values\<close>

text \<open>JSON numbers are kept as integers: no part of the program reads one.\<close>

datatype json = JNull | JBool bool | JNum int | JStr string | JArr "json list"
  | JObj "(string \<times> json) list"

text \<open>JavaScript truthiness of a parsed JSON value (\<open>if (!workout)\<close>):
  \<open>null\<close>, \<open>false\<close>, \<open>0\<close> and \<open>""\<close> are falsy, arrays and objects truthy.\<close>

fun truthy_json :: "json \<Rightarrow> bool" where
  "truthy_json JNull = False"
| "truthy_json (JBool b) = b"
| "truthy_json (JNum n) = (n \<noteq> 0)"
| "truthy_json (JStr s) = (s \<noteq> [])"
| "truthy_json (JArr _) = True"
| "truthy_json (JObj _) = True"

fun json_get :: "json \<Rightarrow> string \<Rightarrow> json option" where
  "json_get (JObj kvs) k = last_binding kvs k"
| "json_get _ k = None"

subsection \<open>The response schema\<close>

datatype SchemaType = STRING | OBJECT | ARRAY

datatype schema = Schema
  (stype: SchemaType) (sdescription: "string option")
  (sproperties: "(string \<times> schema) list") (sitems: "schema option") (srequired: "string list")

definition string_schema :: "string option \<Rightarrow> schema" where
  "string_schema d = Schema STRING d [] None []"

definition exerciseSchema :: schema where
  \<open>exerciseSchema = Schema OBJECT None
     [(''name'', string_schema None),
      (''sets'', string_schema (Some ''Number of sets (e.g., \'3-4\').'')),
      (''reps'', string_schema (Some (''Repetition range (e.g., \'8-12\' or \'At'' @ e_acute @ '' a falha\').''))),
      (''rest'', string_schema (Some ''Rest time between sets (e.g., \'60-90s\').'')),
      (''notes'', string_schema (Some ''Technique tip or intensity instruction (e.g., \'Focus on the eccentric phase\').''))]
     None
     [''name'', ''sets'', ''reps'', ''rest'', ''notes'']\<close>

definition workoutSchema :: schema where
  \<open>workoutSchema = Schema OBJECT None
     [(''title'', string_schema (Some ''A catchy title for the workout session.'')),
      (''description'', string_schema (Some ''A brief overview of the workout focus and intensity.'')),
      (''estimatedDuration'', string_schema (Some ''Estimated time to complete the workout (e.g., \'45-60 min\').'')),
      (''frequencyRecommendation'', string_schema (Some ''How many times per week this specific workout should be done.'')),
      (''warmup'', Schema ARRAY (Some ''List of warm-up activities.'') [] (Some (string_schema None)) []),
      (''exercises'', Schema ARRAY None [] (Some exerciseSchema) []),
      (''cooldown'', Schema ARRAY (Some ''List of cool-down or stretching activities.'') [] (Some (string_schema None)) [])]
     None
     [''title'', ''description'', ''estimatedDuration'', ''frequencyRecommendation'', ''warmup'', ''exercises'', ''cooldown'']\<close>

text \<open>A value satisfies a schema when it has the schema's type, an array's
  items satisfy the item schema, and an object binds every required key and
  binds each listed property, if at all, to a value satisfying its schema.\<close>

fun conforms :: "schema \<Rightarrow> json \<Rightarrow> bool" where
  "conforms (Schema STRING _ _ _ _) j = (case j of JStr _ \<Rightarrow> True | _ \<Rightarrow> False)"
| "conforms (Schema ARRAY _ _ it _) j =
     (case j of
        JArr xs \<Rightarrow> (case it of None \<Rightarrow> True | Some s \<Rightarrow> list_all (conforms s) xs)
      | _ \<Rightarrow> False)"
| "conforms (Schema OBJECT _ ps _ req) j =
     (case j of
        JObj kvs \<Rightarrow>
          list_all (\<lambda>k. last_binding kvs k \<noteq> None) req \<and>
          list_all (\<lambda>(k, s). case last_binding kvs k of None \<Rightarrow> True | Some v \<Rightarrow> conforms s v) ps
      | _ \<Rightarrow> False)"

subsection \<open>Reading a JSON value as a plan\<close>

fun json_str :: "json \<Rightarrow> string option" where
  "json_str (JStr s) = Some s"
| "json_str _ = None"

fun json_strs :: "json \<Rightarrow> string list option" where
  "json_strs (JArr xs) = those (map json_str xs)"
| "json_strs _ = None"

definition str_field :: "json \<Rightarrow> string \<Rightarrow> string option" where
  "str_field j k = json_get j k \<bind> json_str"

definition exercise_of_json :: "json \<Rightarrow> Exercise option" where
  "exercise_of_json j = do {
     n \<leftarrow> str_field j ''name'';
     s \<leftarrow> str_field j ''sets'';
     r \<leftarrow> str_field j ''reps'';
     t \<leftarrow> str_field j ''rest'';
     nt \<leftarrow> str_field j ''notes'';
     Some \<lparr>name = n, sets = s, reps = r, rest = t, notes_text = nt, imageUrl = None\<rparr>
   }"

fun json_exercises :: "json \<Rightarrow> Exercise list option" where
  "json_exercises (JArr xs) = those (map exercise_of_json xs)"
| "json_exercises _ = None"

definition plan_of_json :: "json \<Rightarrow> WorkoutPlan option" where
  "plan_of_json j = do {
     ti \<leftarrow> str_field j ''title'';
     de \<leftarrow> str_field j ''description'';
     du \<leftarrow> str_field j ''estimatedDuration'';
     fr \<leftarrow> str_field j ''frequencyRecommendation'';
     wu \<leftarrow> json_get j ''warmup'' \<bind> json_strs;
     ex \<leftarrow> json_get j ''exercises'' \<bind> json_exercises;
     cd \<leftarrow> json_get j ''cooldown'' \<bind> json_strs;
     Some \<lparr>title = ti, description = de, estimatedDuration = du,
           frequencyRecommendation = fr, warmup = wu, exercises = ex, cooldown = cd\<rparr>
   }"

text \<open>What a service that honours the schema emits for a plan: the
  encoding of the plan's fields under the schema's keys (\<open>imageUrl\<close> is
  not in the schema).\<close>

definition json_of_exercise :: "Exercise \<Rightarrow> json" where
  "json_of_exercise e = JObj
     [(''name'', JStr (name e)), (''sets'', JStr (sets e)), (''reps'', JStr (reps e)),
      (''rest'', JStr (rest e)), (''notes'', JStr (notes_text e))]"

definition json_of_plan :: "WorkoutPlan \<Rightarrow> json" where
  "json_of_plan p = JObj
     [(''title'', JStr (title p)), (''description'', JStr (description p)),
      (''estimatedDuration'', JStr (estimatedDuration p)),
      (''frequencyRecommendation'', JStr (frequencyRecommendation p)),
      (''warmup'', JArr (map JStr (warmup p))),
      (''exercises'', JArr (map json_of_exercise (exercises p))),
      (''cooldown'', JArr (map JStr (cooldown p)))]"

definition without_images :: "WorkoutPlan \<Rightarrow> WorkoutPlan" where
  "without_images p = p\<lparr>exercises := map (\<lambda>e. e\<lparr>imageUrl := None\<rparr>) (exercises p)\<rparr>"

subsection \<open>The plan request\<close>

text \<open>The template literal of lines 54--70, byte for byte: it opens with a
  line break, every line is indented by four spaces, and it closes with the
  two spaces before the closing backquote.  \<open>${prefs.level}\<close> prints the
  enum's string value, or \<open>null\<close> when nothing was chosen.\<close>

definition plan_prompt :: "UserPreferences \<Rightarrow> string" where
  \<open>plan_prompt prefs =
     nl @
     ''    Crie um plano de treino de muscula'' @ c_cedil @ a_tilde @ ''o completo e detalhado.'' @ nl @
     ''    '' @ nl @
     ''    Perfil do Usu'' @ a_acute @ ''rio:'' @ nl @
     ''    - N'' @ i_acute @ ''vel de Experi'' @ e_circ @ ''ncia: '' @
       interp_opt (map_option ExperienceLevel_value (level prefs)) @ nl @
     ''    - Objetivo Principal: '' @ interp_opt (map_option FitnessGoal_value (goal prefs)) @ nl @
     ''    - Grupo Muscular do Dia: '' @ interp_opt (map_option MuscleGroup_value (muscleGroup prefs)) @ nl @
     ''    '' @ nl @
     ''    Diretrizes:'' @ nl @
     ''    1. O treino deve seguir princ'' @ i_acute @ ''pios profissionais de educa'' @ c_cedil @ a_tilde @
       ''o f'' @ i_acute @ ''sica.'' @ nl @
     ''    2. Priorize seguran'' @ c_cedil @ ''a e biomec'' @ a_circ @ ''nica correta, especialmente se for iniciante.'' @ nl @
     ''    3. Para "Hipertrofia", foque em volume e tens'' @ a_tilde @ ''o mec'' @ a_circ @ ''nica.'' @ nl @
     ''    4. Para "For'' @ c_cedil @ ''a", foque em cargas altas e repeti'' @ c_cedil @ o_tilde @ ''es baixas.'' @ nl @
     ''    5. Para "Perda de Gordura", sugira intensidade alta ou bi-sets se apropriado.'' @ nl @
     ''    6. A linguagem deve ser motivadora, clara e em PORTUGU'' @ E_circ @ ''S (PT-BR).'' @ nl @
     ''    7. As "notes" (observa'' @ c_cedil @ o_tilde @ ''es) de cada exerc'' @ i_acute @
       ''cio devem ser dicas pr'' @ a_acute @ ''ticas de execu'' @ c_cedil @ a_tilde @ ''o.'' @ nl @
     ''  ''\<close>

definition plan_systemInstruction :: string where
  \<open>plan_systemInstruction =
     ''Voc'' @ e_circ @ '' '' @ e_acute @ '' um personal trainer de elite mundial. Voc'' @ e_circ @
     '' cria treinos altamente eficazes, seguros e baseados em ci'' @ e_circ @
     ''ncia. Responda sempre em JSON v'' @ a_acute @ ''lido.''\<close>

record PlanRequest =
  plan_model :: string
  plan_contents :: string
  plan_responseMimeType :: string
  plan_responseSchema :: schema
  plan_system :: string

definition plan_request :: "UserPreferences \<Rightarrow> PlanRequest" where
  "plan_request prefs =
     \<lparr>plan_model = ''gemini-3-flash-preview'', plan_contents = plan_prompt prefs,
      plan_responseMimeType = ''application/json'', plan_responseSchema = workoutSchema,
      plan_system = plan_systemInstruction\<rparr>"

subsection \<open>The service's answer\<close>

text \<open>The part of the SDK's response the program reads: the candidates with
  their content parts, and the \<open>text\<close> accessor, kept as a field.\<close>

record InlineData =
  data :: string

record Part =
  inlineData :: "InlineData option"

record Content =
  parts :: "Part list option"

record Candidate =
  content :: "Content option"

record GenerateContentResponse =
  candidates :: "Candidate list option"
  response_text :: "string option"

text \<open>The three ways \<open>generateWorkoutPlan\<close> rejects: the service call
  rejects, the answer has no text (line 85), or \<open>JSON.parse\<close> throws
  (line 88).  The \<open>catch\<close> of line 89 logs and rethrows the same error.\<close>

datatype GenError = ServiceError string | NoResponseText | JsonSyntaxError

definition plan_response ::
  "(string \<Rightarrow> json option) \<Rightarrow> string + GenerateContentResponse \<Rightarrow> GenError + json" where
  "plan_response parse r =
     (case r of
        Inl e \<Rightarrow> Inl (ServiceError e)
      | Inr response \<Rightarrow>
          (let text = response_text response in
           if \<not> truthy_opt text then Inl NoResponseText
           else (case parse (the text) of
                   None \<Rightarrow> Inl JsonSyntaxError
                 | Some j \<Rightarrow> Inr j)))"

definition generateWorkoutPlan ::
  "(PlanRequest \<Rightarrow> string + GenerateContentResponse) \<Rightarrow> (string \<Rightarrow> json option) \<Rightarrow>
   UserPreferences \<Rightarrow> GenError + json" where
  "generateWorkoutPlan service parse prefs = plan_response parse (service (plan_request prefs))"

subsection \<open>The exercise image\<close>

text \<open>The prompt of lines 102--105: each of the first three lines ends in a
  space, the next lines are indented by twelve spaces.\<close>

definition exercise_image_prompt :: "string \<Rightarrow> string" where
  \<open>exercise_image_prompt exerciseName =
     ''Create a clean, professional, fitness illustration (technical drawing style or realistic 3D render) of a person performing the exercise: "'' @
     exerciseName @ ''". '' @ nl @
     ''            The background must be plain white or very light gray. '' @ nl @
     ''            Focus on correct form and posture. '' @ nl @
     ''            Full body view.''\<close>

record ImageRequest =
  image_model :: string
  image_prompt :: string
  aspectRatio :: string

definition image_request :: "string \<Rightarrow> ImageRequest" where
  "image_request exerciseName =
     \<lparr>image_model = ''gemini-2.5-flash-image'', image_prompt = exercise_image_prompt exerciseName,
      aspectRatio = ''1:1''\<rparr>"

text \<open>\<open>response.candidates?.[0]?.content?.parts || []\<close>\<close>

definition response_parts :: "GenerateContentResponse \<Rightarrow> Part list" where
  "response_parts response =
     (case candidates response of
        Some (c # _) \<Rightarrow>
          (case content c of
             Some ct \<Rightarrow> (case parts ct of Some ps \<Rightarrow> ps | None \<Rightarrow> [])
           | None \<Rightarrow> [])
      | _ \<Rightarrow> [])"

definition data_uri_prefix :: string where
  "data_uri_prefix = ''data:image/png;base64,''"

text \<open>The loop of lines 116--121: the first part with inline data wins.\<close>

fun first_inline_image :: "Part list \<Rightarrow> string option" where
  "first_inline_image [] = None"
| "first_inline_image (part # ps) =
     (case inlineData part of
        Some d \<Rightarrow> Some (data_uri_prefix @ data d)
      | None \<Rightarrow> first_inline_image ps)"

definition generateExerciseImage ::
  "(ImageRequest \<Rightarrow> string + GenerateContentResponse) \<Rightarrow> string \<Rightarrow> string option" where
  "generateExerciseImage service exerciseName =
     (case service (image_request exerciseName) of
        Inl _ \<Rightarrow> None
      | Inr response \<Rightarrow> first_inline_image (response_parts response))"

subsection \<open>Schema and decoding\<close>

lemma conforms_string_schema [gateway_simps]:
  "conforms (string_schema d) j = (\<exists>s. json_str j = Some s)"
  by (cases j) (simp_all add: string_schema_def)

lemma conforms_string_array [gateway_simps]:
  "conforms (Schema ARRAY d [] (Some (string_schema d')) []) j = (\<exists>ys. json_strs j = Some ys)"
  by (cases j) (simp_all add: those_map_Some_iff conforms_string_schema list_all_iff)

lemma conforms_exerciseSchema [gateway_simps]:
  "conforms exerciseSchema j = (\<exists>e. exercise_of_json j = Some e)"
  by (cases j) (auto simp: exerciseSchema_def exercise_of_json_def conforms_string_schema str_field_def
        split: option.splits Option.bind_splits)

lemma conforms_exercise_array [gateway_simps]:
  "conforms (Schema ARRAY d [] (Some exerciseSchema) []) j = (\<exists>es. json_exercises j = Some es)"
  by (cases j) (simp_all add: those_map_Some_iff conforms_exerciseSchema list_all_iff)

lemma conforms_object:
  "conforms (Schema OBJECT d ps it req) j =
     (case j of
        JObj kvs \<Rightarrow>
          list_all (\<lambda>k. last_binding kvs k \<noteq> None) req \<and>
          list_all (\<lambda>(k, s). case last_binding kvs k of None \<Rightarrow> True | Some v \<Rightarrow> conforms s v) ps
      | _ \<Rightarrow> False)"
  by simp

text \<open>C12. The response schema sent with the plan request describes exactly
  the JSON values that read as a \<open>WorkoutPlan\<close>: a value satisfies
  \<open>workoutSchema\<close> if and only if \<open>plan_of_json\<close> decodes it.\<close>

theorem conforms_workoutSchema_iff: "conforms workoutSchema j \<longleftrightarrow> (\<exists>p. plan_of_json j = Some p)"
  by (cases j) (auto simp del: conforms.simps simp: conforms_object workoutSchema_def str_field_def
       plan_of_json_def gateway_simps split: option.splits Option.bind_splits)

lemma json_of_plan_decodes: "plan_of_json (json_of_plan p) = Some (without_images p)"
proof -
  have ex: "those (map (exercise_of_json \<circ> json_of_exercise) es) =
      Some (map (\<lambda>e. e\<lparr>imageUrl := None\<rparr>) es)" for es
    by (induction es) (simp_all add: exercise_of_json_def json_of_exercise_def str_field_def last_binding_def)
  have strs: "those (map (json_str \<circ> JStr) xs) = Some xs" for xs
    by (induction xs) simp_all
  show ?thesis
    by (cases p) (simp add: plan_of_json_def json_of_plan_def str_field_def last_binding_def ex strs
        without_images_def)
qed

subsection \<open>The prompt\<close>

lemma append_sep_eq_iff:
  "c \<notin> set xs \<Longrightarrow> c \<notin> set xs' \<Longrightarrow> xs @ c # ys = xs' @ c # ys' \<longleftrightarrow> xs = xs' \<and> ys = ys'"
proof (induction xs arbitrary: xs')
  case Nil
  then show ?case by (cases xs') auto
next
  case (Cons x xs)
  then show ?case by (cases xs') auto
qed

lemma interp_opt_no_sep:
  "(\<And>v. c \<notin> set (f v)) \<Longrightarrow> c \<notin> set ''null'' \<Longrightarrow> c \<notin> set (interp_opt (map_option f x))"
  by (cases x) simp_all

lemma interp_opt_inj:
  "inj f \<Longrightarrow> (\<And>v. f v \<noteq> ''null'') \<Longrightarrow>
   interp_opt (map_option f x) = interp_opt (map_option f y) \<longleftrightarrow> x = y"
  by (cases x; cases y) (auto simp: inj_eq dest: sym)

lemma level_value_facts [gateway_simps]:
  "CHR 0x0A \<notin> set (ExperienceLevel_value l)" "ExperienceLevel_value l \<noteq> ''null''"
  by (cases l; simp)+

lemma goal_value_facts [gateway_simps]:
  "CHR 0x0A \<notin> set (FitnessGoal_value g)" "FitnessGoal_value g \<noteq> ''null''"
  by (cases g; simp)+

lemma muscle_value_facts [gateway_simps]:
  "CHR 0x0A \<notin> set (MuscleGroup_value m)" "MuscleGroup_value m \<noteq> ''null''"
  by (cases m; simp)+

lemma enum_values_inj [gateway_simps]:
  "inj ExperienceLevel_value" "inj FitnessGoal_value" "inj MuscleGroup_value"
  by (rule injI, case_tac x; case_tac y; simp)+

text \<open>C13. The plan prompt determines the preferences it was built from:
  two preference records give the same prompt only if they are equal, so the
  service can tell every profile apart (each chosen value, or \<open>null\<close>, sits
  between fixed line breaks of the template).\<close>

theorem plan_prompt_inj: "plan_prompt p = plan_prompt q \<longleftrightarrow> p = q"
  by (cases p; cases q)
    (simp add: plan_prompt_def append_sep_eq_iff interp_opt_no_sep interp_opt_inj gateway_simps)

subsection \<open>Handling the plan answer\<close>

lemma plan_response_Inr_iff:
  "plan_response parse r = Inr j \<longleftrightarrow>
     (\<exists>response t. r = Inr response \<and> response_text response = Some t \<and> t \<noteq> [] \<and> parse t = Some j)"
  by (auto simp: plan_response_def Let_def truthy_opt_iff split: sum.splits option.splits)

lemma plan_response_Inl_iff:
  "plan_response parse r = Inl e \<longleftrightarrow>
     (\<exists>m. r = Inl m \<and> e = ServiceError m) \<or>
     (\<exists>response. r = Inr response \<and> response_text response \<in> {None, Some []} \<and> e = NoResponseText) \<or>
     (\<exists>response t. r = Inr response \<and> response_text response = Some t \<and> t \<noteq> [] \<and>
        parse t = None \<and> e = JsonSyntaxError)"
  by (cases r) (auto simp: plan_response_def Let_def truthy_opt_iff split: option.splits)

text \<open>C10. \<open>generateWorkoutPlan\<close> resolves with a value exactly when the
  service answers the request built from the preferences with a non-empty
  text that \<open>JSON.parse\<close> accepts, and the value is the parsed text.  No
  check against the schema is made.\<close>

theorem generateWorkoutPlan_Inr_iff:
  "generateWorkoutPlan service parse prefs = Inr j \<longleftrightarrow>
     (\<exists>response t. service (plan_request prefs) = Inr response \<and> response_text response = Some t \<and>
        t \<noteq> [] \<and> parse t = Some j)"
  by (simp add: generateWorkoutPlan_def plan_response_Inr_iff)

text \<open>C11. \<open>generateWorkoutPlan\<close> rejects in exactly three ways: the
  service rejects (the error is passed on), the answer has no or empty text,
  or its text is not JSON.\<close>

theorem generateWorkoutPlan_Inl_iff:
  "generateWorkoutPlan service parse prefs = Inl e \<longleftrightarrow>
     (\<exists>m. service (plan_request prefs) = Inl m \<and> e = ServiceError m) \<or>
     (\<exists>response. service (plan_request prefs) = Inr response \<and>
        response_text response \<in> {None, Some []} \<and> e = NoResponseText) \<or>
     (\<exists>response t. service (plan_request prefs) = Inr response \<and> response_text response = Some t \<and>
        t \<noteq> [] \<and> parse t = None \<and> e = JsonSyntaxError)"
  by (simp add: generateWorkoutPlan_def plan_response_Inl_iff)

subsection \<open>The exercise image\<close>

text \<open>C14. The image found in a list of parts is the data URI of the inline
  data of the first part that has inline data.\<close>

theorem first_inline_image_Some_iff:
  "first_inline_image ps = Some u \<longleftrightarrow>
     (\<exists>pre part post d. ps = pre @ part # post \<and> list_all (\<lambda>q. inlineData q = None) pre \<and>
        inlineData part = Some d \<and> u = data_uri_prefix @ data d)"
proof (induction ps)
  case Nil
  then show ?case by simp
next
  case (Cons p ps)
  show ?case
  proof (cases "inlineData p")
    case None
    let ?found = "\<lambda>xs. \<exists>pre part post d. xs = pre @ part # post \<and>
      list_all (\<lambda>q. inlineData q = None) pre \<and> inlineData part = Some d \<and> u = data_uri_prefix @ data d"
    have "?found ps \<longleftrightarrow> ?found (p # ps)"
    proof
      assume "?found ps"
      then obtain pre part post d where "ps = pre @ part # post" "list_all (\<lambda>q. inlineData q = None) pre"
        "inlineData part = Some d" "u = data_uri_prefix @ data d" by blast
      with None show "?found (p # ps)"
        by (intro exI [of _ "p # pre"]) auto
    next
      assume "?found (p # ps)"
      then obtain pre part post d where split: "p # ps = pre @ part # post"
        and pre: "list_all (\<lambda>q. inlineData q = None) pre"
        and d: "inlineData part = Some d" "u = data_uri_prefix @ data d" by blast
      with None obtain pre' where "pre = p # pre'"
        by (cases pre) auto
      with split pre d show "?found ps" by auto
    qed
    with None Cons.IH show ?thesis by simp
  next
    case (Some d)
    then show ?thesis
      by (auto simp: Cons_eq_append_conv intro!: exI [of _ "[]"])
  qed
qed

lemma first_inline_image_shape:
  "first_inline_image ps = None \<or> (\<exists>d. first_inline_image ps = Some (data_uri_prefix @ d))"
  by (induction ps) (auto split: option.splits)

text \<open>C15. \<open>generateExerciseImage\<close> never rejects: whatever the image
  service does, it returns either nothing or a PNG data URI.\<close>

theorem generateExerciseImage_shape:
  "generateExerciseImage service n = None \<or>
   (\<exists>d. generateExerciseImage service n = Some (''data:image/png;base64,'' @ d))"
  using first_inline_image_shape
  by (auto simp: generateExerciseImage_def data_uri_prefix_def split: sum.splits)

lemma generateExerciseImage_truthy [gateway_simps]:
  "generateExerciseImage service n = Some u \<Longrightarrow> u \<noteq> []"
proof -
  have "first_inline_image ps = Some u \<Longrightarrow> u \<noteq> []" for ps
    by (induction ps) (auto simp: data_uri_prefix_def split: option.splits)
  then show "generateExerciseImage service n = Some u \<Longrightarrow> u \<noteq> []"
    by (auto simp: generateExerciseImage_def split: sum.splits)
qed

end
