(* ===== verification/Wizard.thy ===== *)
theory Wizard
  imports Gateway
begin

text \<open>
  The wizard state machine of \<open>src/App.tsx\<close>.  The component's four
  \<open>useState\<close> hooks (lines 15--22) are the record \<open>AppState\<close>; its
  handlers \<open>handleNext\<close>, \<open>handleBack\<close>, \<open>generate\<close>, the option
  callbacks and the retry button are functions on it.  \<open>generate\<close> is
  asynchronous: it is split at its \<open>await\<close> into \<open>generate_start\<close>,
  which returns the request it issues as an \<open>Effect\<close>, and
  \<open>generate_finish\<close>, run when the promise settles.  \<open>render\<close> is the
  screen the component draws for a state (lines 182--222), and with it which
  buttons exist.

  \<open>WizardSys\<close> adds the requests in flight.  \<open>wizard_step\<close> applies
  one event: a click on a button the screen shows, or the settling of the
  oldest request in flight with its outcome; \<open>enabled\<close> says which events
  the screen offers.  React's state updates inside one event are applied
  together before the next event, as React does for discrete events.
  \<open>reachable\<close> is the set of states a user and the service can produce
  from the initial state.
\<close>

subsection \<open>State\<close>

record AppState =
  step :: AppStep
  prefs :: UserPreferences
  workout :: json
  error :: "string option"

definition empty_prefs :: UserPreferences where
  "empty_prefs = \<lparr>level = None, goal = None, muscleGroup = None\<rparr>"

text \<open>\<open>workout\<close> holds whatever \<open>generateWorkoutPlan\<close> resolved with, the
  value of \<open>JSON.parse\<close>; its initial \<open>null\<close> is \<open>JNull\<close>.\<close>

definition init_AppState :: AppState where
  "init_AppState = \<lparr>step = Intro, prefs = empty_prefs, workout = JNull, error = None\<rparr>"

datatype Effect = RequestPlan UserPreferences

primrec requested_prefs :: "Effect \<Rightarrow> UserPreferences" where
  "requested_prefs (RequestPlan p) = p"

subsection \<open>Handlers\<close>

definition generation_failed_msg :: string where
  "generation_failed_msg = ''Falha ao gerar o treino. Por favor, tente novamente.''"

text \<open>\<open>generate\<close>, lines 43--54, up to its \<open>await\<close>.\<close>

definition generate_start :: "AppState \<Rightarrow> AppState \<times> Effect list" where
  "generate_start s = (s\<lparr>step := Loading, error := None\<rparr>, [RequestPlan (prefs s)])"

text \<open>\<open>generate\<close> after its \<open>await\<close>: the success branch and the
  \<open>catch\<close>.\<close>

definition generate_finish :: "GenError + json \<Rightarrow> AppState \<Rightarrow> AppState" where
  "generate_finish r s =
     (case r of
        Inr result \<Rightarrow> s\<lparr>workout := result, step := Result\<rparr>
      | Inl _ \<Rightarrow> s\<lparr>error := Some generation_failed_msg, step := Error\<rparr>)"

text \<open>\<open>handleNext\<close>, lines 24--31; \<open>prefs.level\<close> is tested for
  truthiness.\<close>

definition handleNext :: "AppState \<Rightarrow> AppState \<times> Effect list" where
  "handleNext s =
     (if step s = Intro then (s\<lparr>step := SelectLevel\<rparr>, [])
      else if step s = SelectLevel \<and> truthy_opt (map_option ExperienceLevel_value (level (prefs s)))
        then (s\<lparr>step := SelectGoal\<rparr>, [])
      else if step s = SelectGoal \<and> truthy_opt (map_option FitnessGoal_value (goal (prefs s)))
        then (s\<lparr>step := SelectMuscle\<rparr>, [])
      else if step s = SelectMuscle \<and> truthy_opt (map_option MuscleGroup_value (muscleGroup (prefs s)))
        then generate_start s
      else (s, []))"

text \<open>\<open>handleBack\<close>, lines 33--41: the numeric comparison and the
  decrement of the enum value.\<close>

definition handleBack :: "AppState \<Rightarrow> AppState" where
  "handleBack s =
     (if Intro < step s \<and> step s \<le> SelectMuscle
        then s\<lparr>step := AppStep_of_num (AppStep_num (step s) - 1)\<rparr>
      else if step s = Result
        then s\<lparr>step := Intro, prefs := empty_prefs, workout := JNull\<rparr>
      else s)"

text \<open>The retry button of the error screen, line 122.\<close>

definition retry :: "AppState \<Rightarrow> AppState" where
  "retry s = s\<lparr>step := SelectMuscle\<rparr>"

text \<open>The \<open>onSelect\<close> callbacks of lines 203, 210 and 217.\<close>

definition selectLevel :: "ExperienceLevel \<Rightarrow> AppState \<Rightarrow> AppState" where
  "selectLevel v s = s\<lparr>prefs := (prefs s)\<lparr>level := Some v\<rparr>\<rparr>"

definition selectGoal :: "FitnessGoal \<Rightarrow> AppState \<Rightarrow> AppState" where
  "selectGoal v s = s\<lparr>prefs := (prefs s)\<lparr>goal := Some v\<rparr>\<rparr>"

definition selectMuscleGroup :: "MuscleGroup \<Rightarrow> AppState \<Rightarrow> AppState" where
  "selectMuscleGroup v s = s\<lparr>prefs := (prefs s)\<lparr>muscleGroup := Some v\<rparr>\<rparr>"

subsection \<open>Rendering\<close>

text \<open>The screens: a selection screen has its title, its options, the
  selected value and the label of its next button (disabled when nothing is
  selected, line 99); the result screen is drawn only for a truthy
  \<open>workout\<close> (line 127), otherwise nothing is drawn.\<close>

datatype View = IntroView | SelectionView string "string list" "string option" string
  | LoadingView | ErrorView "string option" | ResultView json | NoView

definition render :: "AppState \<Rightarrow> View" where
  "render s =
     (case step s of
        Intro \<Rightarrow> IntroView
      | SelectLevel \<Rightarrow> SelectionView (''Qual seu n'' @ i_acute @ ''vel de experi'' @ e_circ @ ''ncia?'')
          ExperienceLevel_values (map_option ExperienceLevel_value (level (prefs s)))
          (''Pr'' @ o_acute @ ''ximo'')
      | SelectGoal \<Rightarrow> SelectionView ''Qual seu objetivo principal?''
          FitnessGoal_values (map_option FitnessGoal_value (goal (prefs s)))
          (''Pr'' @ o_acute @ ''ximo'')
      | SelectMuscle \<Rightarrow> SelectionView ''Qual grupo muscular vamos treinar hoje?''
          MuscleGroup_values (map_option MuscleGroup_value (muscleGroup (prefs s)))
          ''Gerar Treino''
      | Loading \<Rightarrow> LoadingView
      | Error \<Rightarrow> ErrorView (error s)
      | Result \<Rightarrow> (if truthy_json (workout s) then ResultView (workout s) else NoView))"

subsection \<open>Events and the system\<close>

datatype UiEvent = PickLevel ExperienceLevel | PickGoal FitnessGoal | PickMuscle MuscleGroup
  | ClickNext | ClickBack | ClickRetry | PlanSettled "GenError + json"

record WizardSys =
  app :: AppState
  inflight :: "UserPreferences list"

definition wizard_init :: WizardSys where
  "wizard_init = \<lparr>app = init_AppState, inflight = []\<rparr>"

text \<open>The buttons each screen shows: the start button (line 71), the
  option cards, back and next of a selection screen (lines 98--99), the
  retry button (line 122) and the new-plan button (line 170).  A request in
  flight can settle at any time.\<close>

fun enabled :: "WizardSys \<Rightarrow> UiEvent \<Rightarrow> bool" where
  "enabled s (PickLevel v) = (step (app s) = SelectLevel)"
| "enabled s (PickGoal v) = (step (app s) = SelectGoal)"
| "enabled s (PickMuscle v) = (step (app s) = SelectMuscle)"
| "enabled s ClickNext =
     (case render (app s) of IntroView \<Rightarrow> True | SelectionView _ _ sel _ \<Rightarrow> truthy_opt sel | _ \<Rightarrow> False)"
| "enabled s ClickBack =
     (case render (app s) of SelectionView _ _ _ _ \<Rightarrow> True | ResultView _ \<Rightarrow> True | _ \<Rightarrow> False)"
| "enabled s ClickRetry = (case render (app s) of ErrorView _ \<Rightarrow> True | _ \<Rightarrow> False)"
| "enabled s (PlanSettled r) = (inflight s \<noteq> [])"

definition apply_handler :: "AppState \<times> Effect list \<Rightarrow> WizardSys \<Rightarrow> WizardSys" where
  "apply_handler r s = s\<lparr>app := fst r, inflight := inflight s @ map requested_prefs (snd r)\<rparr>"

fun wizard_step :: "WizardSys \<Rightarrow> UiEvent \<Rightarrow> WizardSys" where
  "wizard_step s (PickLevel v) = s\<lparr>app := selectLevel v (app s)\<rparr>"
| "wizard_step s (PickGoal v) = s\<lparr>app := selectGoal v (app s)\<rparr>"
| "wizard_step s (PickMuscle v) = s\<lparr>app := selectMuscleGroup v (app s)\<rparr>"
| "wizard_step s ClickNext = apply_handler (handleNext (app s)) s"
| "wizard_step s ClickBack = s\<lparr>app := handleBack (app s)\<rparr>"
| "wizard_step s ClickRetry = s\<lparr>app := retry (app s)\<rparr>"
| "wizard_step s (PlanSettled r) =
     (case inflight s of
        [] \<Rightarrow> s
      | _ # later \<Rightarrow> s\<lparr>app := generate_finish r (app s), inflight := later\<rparr>)"

text \<open>A run of events, each applied only if the screen offers it.\<close>

fun wizard_run :: "WizardSys \<Rightarrow> UiEvent list \<Rightarrow> WizardSys option" where
  "wizard_run s [] = Some s"
| "wizard_run s (e # es) = (if enabled s e then wizard_run (wizard_step s e) es else None)"


inductive reachable :: "WizardSys \<Rightarrow> bool" where
  init: "reachable wizard_init"
| step: "reachable s \<Longrightarrow> enabled s e \<Longrightarrow> reachable (wizard_step s e)"

subsection \<open>The invariant\<close>

text \<open>Which choices each step has made: a step past a selection screen has
  that screen's choice.\<close>

definition prefs_ok :: "AppStep \<Rightarrow> UserPreferences \<Rightarrow> bool" where
  "prefs_ok st p \<longleftrightarrow>
     (st \<in> {SelectGoal, SelectMuscle, Loading, Result, Error} \<longrightarrow> level p \<noteq> None) \<and>
     (st \<in> {SelectMuscle, Loading, Result, Error} \<longrightarrow> goal p \<noteq> None) \<and>
     (st \<in> {Loading, Result, Error} \<longrightarrow> muscleGroup p \<noteq> None)"

definition wizard_inv :: "WizardSys \<Rightarrow> bool" where
  "wizard_inv s \<longleftrightarrow>
     inflight s = (if step (app s) = Loading then [prefs (app s)] else []) \<and>
     prefs_ok (step (app s)) (prefs (app s)) \<and>
     (step (app s) \<noteq> Result \<longrightarrow> workout (app s) = JNull) \<and>
     (step (app s) = Error \<longrightarrow> error (app s) = Some generation_failed_msg) \<and>
     (step (app s) \<in> {Loading, Result} \<longrightarrow> error (app s) = None)"

text \<open>A sample profile, used by the witnesses below.\<close>

definition loading_prefs :: UserPreferences where
  "loading_prefs = \<lparr>level = Some Iniciante, goal = Some Hipertrofia, muscleGroup = Some Peito\<rparr>"

subsection \<open>Handler equations\<close>

lemmas handler_defs [wizard_simps] = generate_start_def generate_finish_def handleNext_def
  retry_def selectLevel_def selectGoal_def selectMuscleGroup_def apply_handler_def

text \<open>C9. \<open>handleBack\<close>'s numeric range test and decrement of the step
  implement exactly the transition table of the retreat action: each
  selection step goes back to the step before it, the result screen restarts
  with cleared preferences and plan, every other step is unchanged.\<close>

theorem handleBack_table:
  "handleBack s =
     (case step s of
        SelectLevel \<Rightarrow> s\<lparr>step := Intro\<rparr>
      | SelectGoal \<Rightarrow> s\<lparr>step := SelectLevel\<rparr>
      | SelectMuscle \<Rightarrow> s\<lparr>step := SelectGoal\<rparr>
      | Result \<Rightarrow> s\<lparr>step := Intro, prefs := empty_prefs, workout := JNull\<rparr>
      | _ \<Rightarrow> s)"
  by (cases "step s") (simp_all add: handleBack_def AppStep_order)

lemma enabled_ClickNext:
  "enabled s ClickNext \<longleftrightarrow> step (app s) = Intro \<or>
     (step (app s) = SelectLevel \<and> level (prefs (app s)) \<noteq> None) \<or>
     (step (app s) = SelectGoal \<and> goal (prefs (app s)) \<noteq> None) \<or>
     (step (app s) = SelectMuscle \<and> muscleGroup (prefs (app s)) \<noteq> None)"
  by (cases "step (app s)") (simp_all add: render_def)

lemma enabled_ClickBack:
  "enabled s ClickBack \<longleftrightarrow> step (app s) \<in> {SelectLevel, SelectGoal, SelectMuscle} \<or>
     (step (app s) = Result \<and> truthy_json (workout (app s)))"
  by (cases "step (app s)") (simp_all add: render_def)

subsection \<open>Functional behaviour of the handlers\<close>

text \<open>C3. Advancing from the muscle-group step with a muscle group chosen
  enters the loading step, clears the error and issues exactly one plan
  request, carrying the accumulated preferences.\<close>

theorem handleNext_SelectMuscle:
  "step s = SelectMuscle \<Longrightarrow> muscleGroup (prefs s) \<noteq> None \<Longrightarrow>
   handleNext s = (s\<lparr>step := Loading, error := None\<rparr>, [RequestPlan (prefs s)])"
  by (simp add: handleNext_def generate_start_def)

theorem handleNext_SelectMuscle_witness:
  "handleNext \<lparr>step = SelectMuscle, prefs = loading_prefs, workout = JNull, error = Some ''x''\<rparr> =
   (\<lparr>step = Loading, prefs = loading_prefs, workout = JNull, error = None\<rparr>, [RequestPlan loading_prefs])"
  using handleNext_SelectMuscle [of "\<lparr>step = SelectMuscle, prefs = loading_prefs, workout = JNull,
      error = Some ''x''\<rparr>"]
  by (simp add: loading_prefs_def)

text \<open>C4. Advancing from a selection step whose choice is not made is a
  no-op: the state is unchanged and no request is issued.\<close>

theorem handleNext_blocked:
  "(step s = SelectLevel \<and> level (prefs s) = None) \<or> (step s = SelectGoal \<and> goal (prefs s) = None) \<or>
   (step s = SelectMuscle \<and> muscleGroup (prefs s) = None) \<Longrightarrow> handleNext s = (s, [])"
  by (auto simp: handleNext_def)

theorem handleNext_blocked_witness:
  "handleNext \<lparr>step = SelectGoal, prefs = empty_prefs\<lparr>level := Some Avancado\<rparr>, workout = JNull, error = None\<rparr> =
   (\<lparr>step = SelectGoal, prefs = empty_prefs\<lparr>level := Some Avancado\<rparr>, workout = JNull, error = None\<rparr>, [])"
  using handleNext_blocked [of "\<lparr>step = SelectGoal, prefs = empty_prefs\<lparr>level := Some Avancado\<rparr>,
      workout = JNull, error = None\<rparr>"]
  by (simp add: empty_prefs_def)

text \<open>C7. In the loading step both navigation handlers are inert, even when
  called programmatically: no second request can be issued while one is in
  flight.\<close>

theorem loading_handlers_inert: "step s = Loading \<Longrightarrow> handleNext s = (s, []) \<and> handleBack s = s"
  by (simp add: handleNext_def handleBack_def AppStep_order)

theorem loading_handlers_inert_witness:
  "handleNext \<lparr>step = Loading, prefs = loading_prefs, workout = JNull, error = None\<rparr> =
     (\<lparr>step = Loading, prefs = loading_prefs, workout = JNull, error = None\<rparr>, []) \<and>
   handleBack \<lparr>step = Loading, prefs = loading_prefs, workout = JNull, error = None\<rparr> =
     \<lparr>step = Loading, prefs = loading_prefs, workout = JNull, error = None\<rparr>"
  using loading_handlers_inert [of "\<lparr>step = Loading, prefs = loading_prefs, workout = JNull, error = None\<rparr>"]
  by simp

subsection \<open>The invariant\<close>

lemma wizard_step_inv:
  "wizard_inv s \<Longrightarrow> enabled s e \<Longrightarrow> wizard_inv (wizard_step s e)"
  by (cases e; cases "step (app s)")
    (simp_all add: wizard_inv_def prefs_ok_def render_def wizard_simps handleBack_def empty_prefs_def
      AppStep_order split: if_splits sum.splits)

lemma wizard_inv_init: "wizard_inv wizard_init"
  by (simp add: wizard_inv_def wizard_init_def init_AppState_def prefs_ok_def)

text \<open>C1. Every reachable state satisfies the wizard invariant: exactly one
  request, carrying the current preferences, is in flight in the loading
  step and none otherwise; each step past a selection screen has that
  screen's choice; no plan is stored outside the result step; the error step
  shows the fixed failure message; the loading and result steps carry no
  error.\<close>

theorem reachable_wizard_inv: "reachable s \<Longrightarrow> wizard_inv s"
proof (induction rule: reachable.induct)
  case init
  show ?case by (rule wizard_inv_init)
next
  case (step s e)
  show ?case by (rule wizard_step_inv [OF step.IH step.hyps(2)])
qed

lemma wizard_inv_of_reachable: "reachable s \<Longrightarrow> wizard_inv s"
  by (induction rule: reachable.induct) (auto intro: wizard_inv_init wizard_step_inv)

lemma wizard_run_reachable: "reachable s \<Longrightarrow> wizard_run s es = Some s' \<Longrightarrow> reachable s'"
proof (induction es arbitrary: s)
  case Nil
  then show ?case by simp
next
  case (Cons e es)
  then show ?case by (auto intro: reachable.step split: if_splits)
qed

lemma reachable_loading:
  "reachable \<lparr>app = \<lparr>step = Loading, prefs = loading_prefs, workout = JNull, error = None\<rparr>,
              inflight = [loading_prefs]\<rparr>"
proof -
  have "wizard_run wizard_init [ClickNext, PickLevel Iniciante, ClickNext, PickGoal Hipertrofia, ClickNext,
      PickMuscle Peito, ClickNext] =
    Some \<lparr>app = \<lparr>step = Loading, prefs = loading_prefs, workout = JNull, error = None\<rparr>,
          inflight = [loading_prefs]\<rparr>"
    by (simp add: wizard_init_def init_AppState_def render_def wizard_simps empty_prefs_def loading_prefs_def)
  then show ?thesis by (rule wizard_run_reachable [OF reachable.init])
qed

lemma reachable_result:
  "reachable \<lparr>app = \<lparr>step = Result, prefs = loading_prefs, workout = JObj [], error = None\<rparr>,
              inflight = []\<rparr>"
proof -
  have "wizard_run \<lparr>app = \<lparr>step = Loading, prefs = loading_prefs, workout = JNull, error = None\<rparr>,
      inflight = [loading_prefs]\<rparr> [PlanSettled (Inr (JObj []))] =
    Some \<lparr>app = \<lparr>step = Result, prefs = loading_prefs, workout = JObj [], error = None\<rparr>, inflight = []\<rparr>"
    by (simp add: generate_finish_def)
  then show ?thesis by (rule wizard_run_reachable [OF reachable_loading])
qed

theorem reachable_wizard_inv_witness:
  "reachable \<lparr>app = \<lparr>step = Loading, prefs = loading_prefs, workout = JNull, error = None\<rparr>,
              inflight = [loading_prefs]\<rparr> \<and>
   wizard_inv \<lparr>app = \<lparr>step = Loading, prefs = loading_prefs, workout = JNull, error = None\<rparr>,
              inflight = [loading_prefs]\<rparr>"
  using reachable_loading reachable_wizard_inv [OF reachable_loading] by simp

subsection \<open>Settling, restarting, loading\<close>

text \<open>C5. Starting a new plan from the result screen of a reachable state
  returns the whole system to its initial state: step \<open>Intro\<close>, every
  preference cleared, no plan, no error, nothing in flight.\<close>

theorem restart_from_Result:
  "reachable s \<Longrightarrow> step (app s) = Result \<Longrightarrow> wizard_step s ClickBack = wizard_init"
  using wizard_inv_of_reachable [of s]
  by (cases s) (simp add: wizard_inv_def handleBack_def AppStep_order wizard_init_def init_AppState_def)

theorem restart_from_Result_witness:
  "wizard_step \<lparr>app = \<lparr>step = Result, prefs = loading_prefs, workout = JObj [], error = None\<rparr>,
     inflight = []\<rparr> ClickBack = wizard_init"
  using restart_from_Result [OF reachable_result] by simp

text \<open>C6. When the request of a reachable loading state settles, a value
  moves to the result step with that value stored as the plan, and a
  rejection moves to the error step with the fixed failure message and no
  plan; in both cases nothing remains in flight and the preferences are
  kept.\<close>

theorem settle_outcome:
  assumes "reachable s" and "step (app s) = Loading"
  shows "wizard_step s (PlanSettled r) =
    \<lparr>app = (case r of
              Inr j \<Rightarrow> (app s)\<lparr>step := Result, workout := j\<rparr>
            | Inl _ \<Rightarrow> (app s)\<lparr>step := Error, error := Some generation_failed_msg\<rparr>),
     inflight = []\<rparr>"
  using wizard_inv_of_reachable [OF assms(1)] assms(2)
  by (cases s; cases r) (simp_all add: wizard_inv_def generate_finish_def)

theorem settle_outcome_witness:
  "wizard_step \<lparr>app = \<lparr>step = Loading, prefs = loading_prefs, workout = JNull, error = None\<rparr>,
      inflight = [loading_prefs]\<rparr> (PlanSettled (Inl NoResponseText)) =
   \<lparr>app = \<lparr>step = Error, prefs = loading_prefs, workout = JNull, error = Some generation_failed_msg\<rparr>,
      inflight = []\<rparr>"
  using settle_outcome [OF reachable_loading, of "Inl NoResponseText"] by simp

text \<open>C8. In a reachable loading state the screen offers no action, and the
  request in flight can always settle: an event is possible exactly when it
  is the settling of that request.\<close>

theorem loading_only_settles:
  "reachable s \<Longrightarrow> step (app s) = Loading \<Longrightarrow> enabled s e \<longleftrightarrow> (\<exists>r. e = PlanSettled r)"
  using wizard_inv_of_reachable [of s]
  by (cases e) (auto simp: render_def wizard_inv_def)

theorem loading_only_settles_witness:
  "enabled \<lparr>app = \<lparr>step = Loading, prefs = loading_prefs, workout = JNull, error = None\<rparr>,
      inflight = [loading_prefs]\<rparr> (PlanSettled (Inl NoResponseText)) \<and>
   \<not> enabled \<lparr>app = \<lparr>step = Loading, prefs = loading_prefs, workout = JNull, error = None\<rparr>,
      inflight = [loading_prefs]\<rparr> ClickBack"
  using loading_only_settles [OF reachable_loading, of "PlanSettled (Inl NoResponseText)"]
    loading_only_settles [OF reachable_loading, of ClickBack]
  by simp

subsection \<open>Getting back to the start\<close>




end
