(* ===== verification/ExerciseCard.thy ===== *)
theory ExerciseCard
  imports Gateway
begin

text \<open>
  The image effect of \<open>src/components/ExerciseCard.tsx\<close>.  A card keeps
  two \<open>useState\<close> hooks, \<open>imageUrl\<close> and \<open>loading\<close> (lines 11--12),
  and runs an effect per value of \<open>exercise.name\<close> (lines 14--34).  Each
  run of the effect is an instance with its own \<open>isMounted\<close> flag: the
  instance is numbered, and its flag is true while the card is mounted and
  the instance is the current one (the cleanup of lines 31--33 runs when the
  name changes or the card unmounts).  The fetch each instance starts is
  outstanding in \<open>pending\<close> with the name it asked for, until the event
  \<open>ImageSettled\<close> delivers what \<open>generateExerciseImage\<close> returned for it.
  \<open>card_view\<close> is what the image section draws (lines 69--92).
\<close>

record CardState =
  card_name :: string
  card_imageUrl :: "string option"
  card_loading :: bool
  card_mounted :: bool
  effect_id :: nat
  next_effect :: nat
  pending :: "(nat \<times> string) list"

text \<open>Mounting: the initial hooks and the first run of the effect.\<close>

definition card_mount :: "string \<Rightarrow> CardState" where
  "card_mount n =
     \<lparr>card_name = n, card_imageUrl = None, card_loading = True, card_mounted = True,
      effect_id = 0, next_effect = 1, pending = [(0, n)]\<rparr>"

definition isMounted :: "CardState \<Rightarrow> nat \<Rightarrow> bool" where
  "isMounted s i \<longleftrightarrow> card_mounted s \<and> i = effect_id s"

text \<open>A render with new props: when the name changed, the old instance is
  cleaned up and a new one starts its fetch; the two hooks keep their
  values.\<close>

definition card_rerender :: "string \<Rightarrow> CardState \<Rightarrow> CardState" where
  "card_rerender n s =
     (if n = card_name s then s
      else s\<lparr>card_name := n, effect_id := next_effect s, next_effect := Suc (next_effect s),
             pending := pending s @ [(next_effect s, n)]\<rparr>)"

definition card_unmount :: "CardState \<Rightarrow> CardState" where
  "card_unmount s = s\<lparr>card_mounted := False\<rparr>"

text \<open>The continuation of \<open>fetchImage\<close> after its \<open>await\<close> (lines
  18--25): set the image if the instance is live and the URL truthy, then,
  in \<open>finally\<close>, end loading if the instance is live.  The \<open>catch\<close> is
  not reachable: \<open>generateExerciseImage\<close> never rejects.\<close>

definition fetchImage_settle :: "nat \<Rightarrow> string option \<Rightarrow> CardState \<Rightarrow> CardState" where
  "fetchImage_settle i url s =
     (let s1 = s\<lparr>pending := filter (\<lambda>(j, _). j \<noteq> i) (pending s)\<rparr>;
          s2 = (if isMounted s i \<and> truthy_opt url then s1\<lparr>card_imageUrl := url\<rparr> else s1)
      in if isMounted s i then s2\<lparr>card_loading := False\<rparr> else s2)"

datatype CardView = Spinner | ImageView string | NoImage

definition card_view :: "CardState \<Rightarrow> CardView" where
  "card_view s =
     (if card_loading s then Spinner
      else if truthy_opt (card_imageUrl s) then ImageView (the (card_imageUrl s))
      else NoImage)"

datatype CardEvent = Rerender string | Unmount | ImageSettled nat "string option"

fun card_enabled :: "CardState \<Rightarrow> CardEvent \<Rightarrow> bool" where
  "card_enabled s (Rerender n) = card_mounted s"
| "card_enabled s Unmount = card_mounted s"
| "card_enabled s (ImageSettled i url) = (i \<in> fst ` set (pending s))"

fun card_step :: "CardState \<Rightarrow> CardEvent \<Rightarrow> CardState" where
  "card_step s (Rerender n) = card_rerender n s"
| "card_step s Unmount = card_unmount s"
| "card_step s (ImageSettled i url) = fetchImage_settle i url s"

inductive card_reachable :: "CardState \<Rightarrow> bool" where
  mount: "card_reachable (card_mount n)"
| step: "card_reachable s \<Longrightarrow> card_enabled s e \<Longrightarrow> card_reachable (card_step s e)"

definition card_inv :: "CardState \<Rightarrow> bool" where
  "card_inv s \<longleftrightarrow>
     effect_id s < next_effect s \<and> (\<forall>(j, _) \<in> set (pending s). j < next_effect s) \<and>
     (card_mounted s \<and> card_loading s \<longrightarrow> (effect_id s, card_name s) \<in> set (pending s))"

text \<open>C21. A fetch whose effect instance is no longer live (the card was
  unmounted or its exercise name changed) changes nothing the card shows:
  neither the image, nor the loading flag, nor the name.\<close>

theorem stale_settle_ignored:
  "\<not> isMounted s i \<Longrightarrow>
   card_imageUrl (fetchImage_settle i url s) = card_imageUrl s \<and>
   card_loading (fetchImage_settle i url s) = card_loading s \<and>
   card_name (fetchImage_settle i url s) = card_name s"
  by (simp add: fetchImage_settle_def Let_def)

lemma card_step_inv: "card_inv s \<Longrightarrow> card_enabled s e \<Longrightarrow> card_inv (card_step s e)"
proof (cases e)
  case (Rerender n)
  assume "card_inv s" "card_enabled s e"
  with Rerender show ?thesis
    by (auto simp: card_inv_def card_rerender_def)
next
  case Unmount
  assume "card_inv s" "card_enabled s e"
  with Unmount show ?thesis
    by (auto simp: card_inv_def card_unmount_def)
next
  case (ImageSettled i url)
  assume "card_inv s" "card_enabled s e"
  with ImageSettled show ?thesis
    by (auto simp: card_inv_def fetchImage_settle_def isMounted_def Let_def)
qed

lemma card_inv_of_reachable: "card_reachable s \<Longrightarrow> card_inv s"
proof (induction rule: card_reachable.induct)
  case (mount n)
  show ?case by (simp add: card_inv_def card_mount_def)
qed (rule card_step_inv)

text \<open>C19. In every reachable card state the effect instances are numbered
  below the counter, and a mounted card that shows its spinner has the fetch
  of its current instance, for its current name, outstanding.\<close>

theorem card_reachable_inv: "card_reachable s \<Longrightarrow> card_inv s"
proof (induction rule: card_reachable.induct)
  case (mount n)
  show ?case by (simp add: card_inv_def card_mount_def)
next
  case (step s e)
  show ?case by (rule card_step_inv [OF step.IH step.hyps(2)])
qed

text \<open>C20. The spinner of a reachable mounted card always ends: the fetch
  of the current instance is outstanding, and when it settles, with any
  result, loading is over.\<close>

theorem spinner_ends:
  assumes "card_reachable s" and "card_mounted s" and "card_loading s"
  shows "card_enabled s (ImageSettled (effect_id s) url) \<and>
         \<not> card_loading (card_step s (ImageSettled (effect_id s) url))"
  using card_inv_of_reachable [OF assms(1)] assms(2,3)
  by (force simp: card_inv_def fetchImage_settle_def isMounted_def Let_def)

text \<open>C23. The hooks are not reset when the exercise name changes.  When a
  mounted card that shows an image is re-rendered with another exercise
  name, it keeps showing the old exercise's image, with no spinner, while
  the fetch for the new name is outstanding; and if that fetch finds no
  image, the old exercise's image stays on the new exercise's card.\<close>

theorem stale_image_after_rename:
  assumes "card_mounted s" and "\<not> card_loading s" and "card_imageUrl s = Some u" and "u \<noteq> []"
    and "n \<noteq> card_name s"
  shows "card_name (card_step s (Rerender n)) = n \<and>
    card_view (card_step s (Rerender n)) = ImageView u \<and>
    card_enabled (card_step s (Rerender n)) (ImageSettled (effect_id (card_step s (Rerender n))) None) \<and>
    card_view (card_step (card_step s (Rerender n))
      (ImageSettled (effect_id (card_step s (Rerender n))) None)) = ImageView u"
  using assms
  by (simp add: card_rerender_def fetchImage_settle_def isMounted_def card_view_def Let_def)

text \<open>C22. When the live instance's fetch settles with what
  \<open>generateExerciseImage\<close> returned, loading ends, and the card takes the
  returned data URI if there is one and otherwise keeps its image: a missing
  image is never an error and never clears anything.\<close>

theorem live_settle_result:
  "isMounted s i \<Longrightarrow>
   card_imageUrl (fetchImage_settle i (generateExerciseImage service n) s) =
     (case generateExerciseImage service n of Some u \<Rightarrow> Some u | None \<Rightarrow> card_imageUrl s) \<and>
   \<not> card_loading (fetchImage_settle i (generateExerciseImage service n) s)"
  by (cases "generateExerciseImage service n")
    (auto simp: fetchImage_settle_def Let_def truthy_opt_iff dest: generateExerciseImage_truthy)

theorem live_settle_result_witness:
  "card_imageUrl (fetchImage_settle 0 (generateExerciseImage (\<lambda>_. Inl ''quota'') ''Supino'')
      (card_mount ''Supino'')) = None \<and>
   \<not> card_loading (fetchImage_settle 0 (generateExerciseImage (\<lambda>_. Inl ''quota'') ''Supino'')
      (card_mount ''Supino''))"
proof -
  have live: "isMounted (card_mount ''Supino'') 0" by (simp add: isMounted_def card_mount_def)
  show ?thesis
    using live_settle_result [OF live, of "\<lambda>_. Inl ''quota''" "''Supino''"]
    by (simp add: generateExerciseImage_def card_mount_def)
qed

theorem stale_settle_ignored_witness:
  "card_imageUrl (fetchImage_settle 0 (Some ''data:x'') (card_unmount (card_mount ''Supino''))) = None \<and>
   card_loading (fetchImage_settle 0 (Some ''data:x'') (card_unmount (card_mount ''Supino''))) \<and>
   card_name (fetchImage_settle 0 (Some ''data:x'') (card_unmount (card_mount ''Supino''))) = ''Supino''"
proof -
  have "\<not> isMounted (card_unmount (card_mount ''Supino'')) 0"
    by (simp add: isMounted_def card_mount_def card_unmount_def)
  from stale_settle_ignored [OF this, of "Some ''data:x''"] show ?thesis
    by (simp add: card_mount_def card_unmount_def)
qed

theorem card_reachable_inv_witness:
  "card_reachable (card_mount ''Supino'') \<and> card_inv (card_mount ''Supino'')"
  using card_reachable.mount card_reachable_inv [OF card_reachable.mount] by blast

theorem spinner_ends_witness:
  "card_enabled (card_mount ''Supino'') (ImageSettled 0 None) \<and>
   \<not> card_loading (card_step (card_mount ''Supino'') (ImageSettled 0 None))"
  using spinner_ends [OF card_reachable.mount, of "''Supino''" None]
  by (simp add: card_mount_def)


theorem stale_image_after_rename_witness:
  "card_name (card_step (fetchImage_settle 0 (Some ''data:A'') (card_mount ''Supino'')) (Rerender ''Agachamento'')) =
     ''Agachamento'' \<and>
   card_view (card_step (fetchImage_settle 0 (Some ''data:A'') (card_mount ''Supino'')) (Rerender ''Agachamento'')) =
     ImageView ''data:A'' \<and>
   card_enabled (card_step (fetchImage_settle 0 (Some ''data:A'') (card_mount ''Supino'')) (Rerender ''Agachamento''))
     (ImageSettled (effect_id (card_step (fetchImage_settle 0 (Some ''data:A'') (card_mount ''Supino''))
       (Rerender ''Agachamento''))) None) \<and>
   card_view (card_step (card_step (fetchImage_settle 0 (Some ''data:A'') (card_mount ''Supino''))
       (Rerender ''Agachamento''))
     (ImageSettled (effect_id (card_step (fetchImage_settle 0 (Some ''data:A'') (card_mount ''Supino''))
       (Rerender ''Agachamento''))) None)) = ImageView ''data:A''"
proof -
  have h: "card_mounted (fetchImage_settle 0 (Some ''data:A'') (card_mount ''Supino''))"
    "\<not> card_loading (fetchImage_settle 0 (Some ''data:A'') (card_mount ''Supino''))"
    "card_imageUrl (fetchImage_settle 0 (Some ''data:A'') (card_mount ''Supino'')) = Some ''data:A''"
    "''data:A'' \<noteq> []"
    "''Agachamento'' \<noteq> card_name (fetchImage_settle 0 (Some ''data:A'') (card_mount ''Supino''))"
    by (simp_all add: fetchImage_settle_def card_mount_def isMounted_def Let_def)
  show ?thesis by (rule stale_image_after_rename [OF h])
qed

end
