(* ===== verification/ProgressBar.thy ===== *)
theory ProgressBar
  imports Wizard Complex_Main
begin

text \<open>
  The progress bar of \<open>src/components/ProgressBar.tsx\<close> and where
  \<open>App.tsx\<close> draws it (lines 191--193).  The width is
  \<open>Math.min(100, Math.max(0, ((currentStep - 1) / (totalSteps - 1)) * 100))\<close>
  on JavaScript numbers.  The inputs are integers, so the arithmetic is
  exact on rationals except where it divides by zero, which JavaScript
  answers with \<open>NaN\<close> (for \<open>0 / 0\<close>) or an infinity; \<open>jsnum\<close> carries
  those cases and \<open>Math.max\<close>/\<open>Math.min\<close> propagate \<open>NaN\<close>.  Rounding of
  binary floating point is not modelled: for the bar's inputs the results
  are exact.
\<close>

datatype jsnum = Fin rat | NaN | PosInf | NegInf

fun js_sub :: "jsnum \<Rightarrow> jsnum \<Rightarrow> jsnum" where
  "js_sub (Fin a) (Fin b) = Fin (a - b)"
| "js_sub _ _ = NaN"

fun js_div :: "jsnum \<Rightarrow> jsnum \<Rightarrow> jsnum" where
  "js_div (Fin a) (Fin b) =
     (if b \<noteq> 0 then Fin (a / b) else if a = 0 then NaN else if 0 < a then PosInf else NegInf)"
| "js_div _ _ = NaN"

fun js_mul :: "jsnum \<Rightarrow> jsnum \<Rightarrow> jsnum" where
  "js_mul (Fin a) (Fin b) = Fin (a * b)"
| "js_mul PosInf (Fin b) = (if 0 < b then PosInf else if b < 0 then NegInf else NaN)"
| "js_mul NegInf (Fin b) = (if 0 < b then NegInf else if b < 0 then PosInf else NaN)"
| "js_mul _ _ = NaN"

fun js_max :: "jsnum \<Rightarrow> jsnum \<Rightarrow> jsnum" where
  "js_max NaN _ = NaN"
| "js_max _ NaN = NaN"
| "js_max PosInf _ = PosInf"
| "js_max _ PosInf = PosInf"
| "js_max NegInf y = y"
| "js_max x NegInf = x"
| "js_max (Fin a) (Fin b) = Fin (max a b)"

fun js_min :: "jsnum \<Rightarrow> jsnum \<Rightarrow> jsnum" where
  "js_min NaN _ = NaN"
| "js_min _ NaN = NaN"
| "js_min NegInf _ = NegInf"
| "js_min _ NegInf = NegInf"
| "js_min PosInf y = y"
| "js_min x PosInf = x"
| "js_min (Fin a) (Fin b) = Fin (min a b)"

definition percentage :: "int \<Rightarrow> int \<Rightarrow> jsnum" where
  "percentage currentStep totalSteps =
     js_min (Fin 100) (js_max (Fin 0)
       (js_mul (js_div (js_sub (Fin (of_int currentStep)) (Fin 1)) (js_sub (Fin (of_int totalSteps)) (Fin 1)))
          (Fin 100)))"

text \<open>\<open>App.tsx\<close> lines 191--193: the bar is drawn strictly between the
  intro and the loading step, with the step's number and three steps.\<close>

definition progress_view :: "AppState \<Rightarrow> jsnum option" where
  "progress_view s =
     (if Intro < step s \<and> step s < Loading then Some (percentage (int (AppStep_num (step s))) 3) else None)"



text \<open>C25. The wizard draws the bar exactly on the three selection screens,
  at 0, 50 and 100 percent.\<close>

theorem progress_view_steps:
  "progress_view s =
     (case step s of
        SelectLevel \<Rightarrow> Some (Fin 0)
      | SelectGoal \<Rightarrow> Some (Fin 50)
      | SelectMuscle \<Rightarrow> Some (Fin 100)
      | _ \<Rightarrow> None)"
  by (cases "step s") (simp_all add: progress_view_def percentage_def AppStep_order)

text \<open>C26. The bar's width is not a number exactly when both the numerator
  and the divisor are zero, i.e. on the first step of a one-step bar: the
  clamp with \<open>Math.max\<close> and \<open>Math.min\<close> turns the infinities of a
  nonzero division by zero into 0 or 100, but passes \<open>NaN\<close> on.\<close>

theorem percentage_single_step: "percentage currentStep totalSteps = NaN \<longleftrightarrow> currentStep = 1 \<and> totalSteps = 1"
  by (simp add: percentage_def)

end
