(* ===== verification/ResultScreen.thy ===== *)
theory ResultScreen
  imports Wizard ExerciseCard
begin

text \<open>
  The result screen: \<open>renderResult\<close> of \<open>src/App.tsx\<close> (lines
  126--176) and the body of \<open>src/components/ExerciseCard.tsx\<close> (lines
  36--92), evaluated on the JSON value the wizard stored.  The cast
  \<open>JSON.parse(text) as WorkoutPlan\<close> checks nothing, so the render reads
  an arbitrary JSON value with JavaScript's semantics: a property of
  \<open>null\<close> or \<open>undefined\<close> throws a \<open>TypeError\<close>, \<open>.map\<close> exists on
  arrays only, and React renders strings and numbers as text, skips
  \<open>null\<close>, \<open>undefined\<close> and booleans, renders an array as its items and
  throws on an object.  A render that throws is \<open>Inl\<close>; React then
  unmounts the whole tree.  \<open>plan_screen\<close> is the screen a plan should
  give, and the lemmas show the render refines it on every value that
  decodes as a plan.
\<close>

subsection \<open>JavaScript reads of the parsed plan\<close>

text \<open>Reading a property (\<open>x.k\<close>): \<open>undefined\<close> (\<open>None\<close>) and
  \<open>null\<close> throw; another value gives its own property, \<open>undefined\<close> when
  absent.  None of the keys the screen reads is a property that arrays,
  strings, numbers or booleans inherit.\<close>

datatype RenderError = TypeError string | ObjectChild

fun js_prop :: "json option \<Rightarrow> string \<Rightarrow> RenderError + json option" where
  "js_prop None k = Inl (TypeError k)"
| "js_prop (Some JNull) k = Inl (TypeError k)"
| "js_prop (Some j) k = Inr (json_get j k)"

text \<open>\<open>x.map((v, i) => ...)\<close>: only arrays have \<open>map\<close>; on \<open>null\<close> or
  \<open>undefined\<close> the read throws, on any other value the call of a
  non-function throws.  The callback runs on the items in order with their
  index, and its first exception propagates.\<close>

fun js_map :: "(json \<Rightarrow> nat \<Rightarrow> RenderError + 'a) \<Rightarrow> json option \<Rightarrow> RenderError + 'a list" where
  "js_map f (Some (JArr xs)) = traverse_sum (\<lambda>(x, i). f x i) (zip xs [0..<length xs])"
| "js_map f _ = Inl (TypeError ''map'')"

subsection \<open>React children\<close>

text \<open>What React draws for a child expression \<open>{x}\<close>.\<close>

datatype rnode = RText string | RNodes "rnode list"

fun react_node :: "json \<Rightarrow> RenderError + rnode" where
  "react_node JNull = Inr (RNodes [])"
| "react_node (JBool b) = Inr (RNodes [])"
| "react_node (JNum n) = Inr (RText (int_str n))"
| "react_node (JStr s) = Inr (RText s)"
| "react_node (JArr xs) = bind_sum (traverse_sum react_node xs) (\<lambda>ns. Inr (RNodes ns))"
| "react_node (JObj kvs) = Inl ObjectChild"

fun react_child :: "json option \<Rightarrow> RenderError + rnode" where
  "react_child None = Inr (RNodes [])"
| "react_child (Some j) = react_node j"

text \<open>A child \<open>{obj.k}\<close>: the read, then React's rendering of it.\<close>

definition js_child :: "json option \<Rightarrow> string \<Rightarrow> RenderError + rnode" where
  "js_child obj k = bind_sum (js_prop obj k) react_child"

subsection \<open>The exercise card\<close>

text \<open>The card body, lines 36--92: the effect's dependency list reads
  \<open>exercise.name\<close> during the render (line 34), then the badge
  \<open>{index + 1}\<close>, the name, sets, reps, rest and tip, and the image
  section drawn from the card's state (\<open>card_view\<close>).\<close>

record ExerciseCardView =
  ec_index :: string
  ec_name :: rnode
  ec_sets :: rnode
  ec_reps :: rnode
  ec_rest :: rnode
  ec_notes :: rnode
  ec_image :: CardView

definition ExerciseCard_render :: "json option \<Rightarrow> nat \<Rightarrow> CardState \<Rightarrow> RenderError + ExerciseCardView" where
  "ExerciseCard_render exercise index st =
     bind_sum (js_prop exercise ''name'') (\<lambda>_.
     bind_sum (js_child exercise ''name'') (\<lambda>nm.
     bind_sum (js_child exercise ''sets'') (\<lambda>se.
     bind_sum (js_child exercise ''reps'') (\<lambda>re.
     bind_sum (js_child exercise ''rest'') (\<lambda>rt.
     bind_sum (js_child exercise ''notes'') (\<lambda>nt.
       Inr \<lparr>ec_index = nat_str (Suc index), ec_name = nm, ec_sets = se, ec_reps = re,
            ec_rest = rt, ec_notes = nt, ec_image = card_view st\<rparr>))))))"

subsection \<open>The result screen\<close>

text \<open>Lines 126--176: nothing for a falsy \<open>workout\<close>; otherwise the
  header fields (lines 133--143), the warm-up and cool-down lists (lines
  149, 155) and one \<open>ExerciseCard\<close> per exercise, keyed and indexed by
  position (lines 164--166); \<open>cards i\<close> is the state of the card at
  position \<open>i\<close>.\<close>

record ResultScreen =
  rs_title :: rnode
  rs_duration :: rnode
  rs_frequency :: rnode
  rs_description :: rnode
  rs_warmup :: "rnode list"
  rs_cooldown :: "rnode list"
  rs_cards :: "ExerciseCardView list"

definition renderResult :: "json \<Rightarrow> (nat \<Rightarrow> CardState) \<Rightarrow> RenderError + ResultScreen option" where
  "renderResult plan cards =
     (if \<not> truthy_json plan then Inr None
      else
        bind_sum (js_child (Some plan) ''title'') (\<lambda>ti.
        bind_sum (js_child (Some plan) ''estimatedDuration'') (\<lambda>du.
        bind_sum (js_child (Some plan) ''frequencyRecommendation'') (\<lambda>fr.
        bind_sum (js_child (Some plan) ''description'') (\<lambda>de.
        bind_sum (bind_sum (js_prop (Some plan) ''warmup'') (js_map (\<lambda>w i. react_node w))) (\<lambda>wu.
        bind_sum (bind_sum (js_prop (Some plan) ''cooldown'') (js_map (\<lambda>c i. react_node c))) (\<lambda>cd.
        bind_sum (bind_sum (js_prop (Some plan) ''exercises'')
                   (js_map (\<lambda>e i. ExerciseCard_render (Some e) i (cards i)))) (\<lambda>cs.
          Inr (Some \<lparr>rs_title = ti, rs_duration = du, rs_frequency = fr, rs_description = de,
                     rs_warmup = wu, rs_cooldown = cd, rs_cards = cs\<rparr>)))))))))"

subsection \<open>The screen of a plan\<close>

text \<open>What the screen should show for a plan: each field as text, the
  cards in order numbered from 1.\<close>

definition exercise_card_view :: "Exercise \<Rightarrow> nat \<Rightarrow> CardState \<Rightarrow> ExerciseCardView" where
  "exercise_card_view e i st =
     \<lparr>ec_index = nat_str (Suc i), ec_name = RText (name e), ec_sets = RText (sets e),
      ec_reps = RText (reps e), ec_rest = RText (rest e), ec_notes = RText (notes_text e),
      ec_image = card_view st\<rparr>"

definition plan_screen :: "WorkoutPlan \<Rightarrow> (nat \<Rightarrow> CardState) \<Rightarrow> ResultScreen" where
  "plan_screen p cards =
     \<lparr>rs_title = RText (title p), rs_duration = RText (estimatedDuration p),
      rs_frequency = RText (frequencyRecommendation p), rs_description = RText (description p),
      rs_warmup = map RText (warmup p), rs_cooldown = map RText (cooldown p),
      rs_cards = map (\<lambda>(e, i). exercise_card_view e i (cards i)) (zip (exercises p) [0..<length (exercises p)])\<rparr>"

subsection \<open>Reading decoded plans\<close>

lemma js_prop_obj [simp]: "j \<noteq> JNull \<Longrightarrow> js_prop (Some j) k = Inr (json_get j k)"
  by (cases j) simp_all

lemma json_get_not_null: "json_get j k = Some v \<Longrightarrow> j \<noteq> JNull"
  by auto

lemma js_child_str: "str_field j k = Some s \<Longrightarrow> js_child (Some j) k = Inr (RText s)"
  by (cases "json_get j k") (auto simp: str_field_def js_child_def json_get_not_null elim: json_str.elims)

lemma those_map_eq_Some: "those (map f xs) = Some ys \<longleftrightarrow> list_all2 (\<lambda>x y. f x = Some y) xs ys"
  by (induction xs arbitrary: ys) (auto split: option.splits simp: list_all2_Cons1)

lemma traverse_sum_zip:
  "list_all2 P xs ys \<Longrightarrow> (\<And>x y i. P x y \<Longrightarrow> f x i = Inr (g y i)) \<Longrightarrow>
   traverse_sum (\<lambda>(x, i). f x i) (zip xs is) = Inr (map (\<lambda>(y, i). g y i) (zip ys is))"
proof (induction xs ys arbitrary: "is" rule: list_all2_induct)
  case (Cons x xs y ys)
  then show ?case by (cases "is") simp_all
qed simp

lemma json_strs_Some: "json_strs j = Some ws \<Longrightarrow> j = JArr (map JStr ws)"
proof -
  have "those (map json_str xs) = Some ws \<Longrightarrow> xs = map JStr ws" for xs
    by (induction xs arbitrary: ws) (auto split: option.splits elim: json_str.elims)
  then show "json_strs j = Some ws \<Longrightarrow> j = JArr (map JStr ws)"
    by (cases j) simp_all
qed

lemma exercise_render:
  "exercise_of_json x = Some e \<Longrightarrow> ExerciseCard_render (Some x) i st = Inr (exercise_card_view e i st)"
  by (auto simp: exercise_of_json_def ExerciseCard_render_def exercise_card_view_def js_child_str
       str_field_def json_get_not_null split: Option.bind_splits)

lemma json_exercises_Some:
  "json_exercises j = Some es \<Longrightarrow> \<exists>xs. j = JArr xs \<and> list_all2 (\<lambda>x e. exercise_of_json x = Some e) xs es"
  by (cases j) (simp_all add: those_map_eq_Some)

lemma js_map_strs: "js_map (\<lambda>w i. react_node w) (Some (JArr (map JStr ws))) = Inr (map RText ws)"
proof -
  have "list_all2 (\<lambda>x w. x = JStr w) (map JStr ws) ws"
    by (simp add: list_all2_conv_all_nth)
  then have "js_map (\<lambda>w i. react_node w) (Some (JArr (map JStr ws))) =
      Inr (map (\<lambda>(w, i). RText w) (zip ws [0..<length ws]))"
    by (auto intro: traverse_sum_zip)
  also have "map (\<lambda>(w, i). RText w) (zip ws [0..<length ws]) = map RText ws"
    by (induction ws rule: rev_induct) simp_all
  finally show ?thesis .
qed

lemma js_map_exercises:
  "list_all2 (\<lambda>x e. exercise_of_json x = Some e) xs es \<Longrightarrow>
   js_map (\<lambda>e i. ExerciseCard_render (Some e) i (cards i)) (Some (JArr xs)) =
   Inr (map (\<lambda>(e, i). exercise_card_view e i (cards i)) (zip es [0..<length es]))"
  by (simp add: list_all2_lengthD traverse_sum_zip exercise_render)

lemma renderResult_decoded:
  assumes "plan_of_json j = Some p"
  shows "renderResult j cards = Inr (Some (plan_screen p cards))"
proof -
  obtain wj ej cj where
    fields: "str_field j ''title'' = Some (title p)" "str_field j ''description'' = Some (description p)"
      "str_field j ''estimatedDuration'' = Some (estimatedDuration p)"
      "str_field j ''frequencyRecommendation'' = Some (frequencyRecommendation p)" and
    lists: "json_get j ''warmup'' = Some wj" "json_strs wj = Some (warmup p)"
      "json_get j ''exercises'' = Some ej" "json_exercises ej = Some (exercises p)"
      "json_get j ''cooldown'' = Some cj" "json_strs cj = Some (cooldown p)"
    using assms by (auto simp: plan_of_json_def split: Option.bind_splits)
  obtain xs where ex: "ej = JArr xs" "list_all2 (\<lambda>x e. exercise_of_json x = Some e) xs (exercises p)"
    using json_exercises_Some [OF lists(4)] by blast
  have obj: "j \<noteq> JNull" "truthy_json j"
    using lists(1) by (cases j; simp)+
  note wu = json_strs_Some [OF lists(2)] and cd = json_strs_Some [OF lists(6)]
  show ?thesis
    using fields lists(1,3,5) obj
    by (simp add: renderResult_def js_child_str wu cd ex(1) js_map_strs js_map_exercises [OF ex(2)]
        plan_screen_def del: js_map.simps)
qed

lemma js_map_not_array: "(\<forall>xs. v \<noteq> Some (JArr xs)) \<Longrightarrow> js_map f v = Inl (TypeError ''map'')"
  by (cases "(f, v)" rule: js_map.cases) auto

lemma conforms_workoutSchema_decodes: "conforms workoutSchema j \<Longrightarrow> \<exists>p. plan_of_json j = Some p"
  by (cases j) (auto simp del: conforms.simps simp: conforms_object workoutSchema_def str_field_def
       plan_of_json_def gateway_simps split: option.splits Option.bind_splits)

subsection \<open>Refinement, type safety and the error path\<close>

text \<open>C28. The result screen refines the plan it decodes: on a JSON value
  that reads as a \<open>WorkoutPlan\<close>, the render of lines 126--176 with the
  cards of lines 36--92 throws nothing and shows the plan's title, duration,
  frequency and description, its warm-up and cool-down items in order, and
  one card per exercise, in order, badged \<open>1\<close> to \<open>n\<close>, with the
  exercise's name, sets, reps, rest and tip.\<close>

theorem renderResult_refines:
  "plan_of_json j = Some p \<Longrightarrow> renderResult j cards = Inr (Some (plan_screen p cards))"
  by (rule renderResult_decoded)

text \<open>C29. Type safety of the result screen: every answer that satisfies the
  response schema sent with the request renders without throwing.\<close>

theorem renderResult_conforming_total:
  "conforms workoutSchema j \<Longrightarrow> \<exists>v. renderResult j cards = Inr (Some v)"
  using conforms_workoutSchema_decodes renderResult_decoded by blast

text \<open>C30. A truthy answer whose \<open>warmup\<close> is not an array makes the
  render throw: \<open>workout.warmup.map\<close> reads a property of
  \<open>undefined\<close> or calls a value that is not a function (line 149).\<close>

theorem renderResult_throws_without_warmup:
  assumes "truthy_json j" and "\<forall>xs. json_get j ''warmup'' \<noteq> Some (JArr xs)"
  shows "\<exists>e. renderResult j cards = Inl e"
proof -
  have "j \<noteq> JNull" using assms(1) by auto
  then show ?thesis
    using assms by (auto simp: renderResult_def bind_sum_def js_map_not_array split: sum.splits)
qed

theorem renderResult_refines_witness:
  "plan_of_json (JObj [(''title'', JStr ''T''), (''description'', JStr ''D''),
      (''estimatedDuration'', JStr ''45 min''), (''frequencyRecommendation'', JStr ''2x''),
      (''warmup'', JArr [JStr ''Esteira'']),
      (''exercises'', JArr [JObj [(''name'', JStr ''Supino''), (''sets'', JStr ''3''), (''reps'', JStr ''10''),
         (''rest'', JStr ''60s''), (''notes'', JStr ''Devagar'')]]),
      (''cooldown'', JArr [])]) = Some \<lparr>title = ''T'', description = ''D'', estimatedDuration = ''45 min'',
         frequencyRecommendation = ''2x'', warmup = [''Esteira''],
         exercises = [\<lparr>name = ''Supino'', sets = ''3'', reps = ''10'', rest = ''60s'',
           notes_text = ''Devagar'', imageUrl = None\<rparr>], cooldown = []\<rparr> \<and>
   map ec_index (rs_cards (plan_screen \<lparr>title = ''T'', description = ''D'', estimatedDuration = ''45 min'',
         frequencyRecommendation = ''2x'', warmup = [''Esteira''],
         exercises = [\<lparr>name = ''Supino'', sets = ''3'', reps = ''10'', rest = ''60s'',
           notes_text = ''Devagar'', imageUrl = None\<rparr>], cooldown = []\<rparr> (\<lambda>_. card_mount ''Supino''))) = [''1''] \<and>
   renderResult (JObj [(''title'', JStr ''T''), (''description'', JStr ''D''),
      (''estimatedDuration'', JStr ''45 min''), (''frequencyRecommendation'', JStr ''2x''),
      (''warmup'', JArr [JStr ''Esteira'']),
      (''exercises'', JArr [JObj [(''name'', JStr ''Supino''), (''sets'', JStr ''3''), (''reps'', JStr ''10''),
         (''rest'', JStr ''60s''), (''notes'', JStr ''Devagar'')]]),
      (''cooldown'', JArr [])]) (\<lambda>_. card_mount ''Supino'') =
   Inr (Some (plan_screen \<lparr>title = ''T'', description = ''D'', estimatedDuration = ''45 min'',
         frequencyRecommendation = ''2x'', warmup = [''Esteira''],
         exercises = [\<lparr>name = ''Supino'', sets = ''3'', reps = ''10'', rest = ''60s'',
           notes_text = ''Devagar'', imageUrl = None\<rparr>], cooldown = []\<rparr> (\<lambda>_. card_mount ''Supino'')))"
proof -
  have dec: "plan_of_json (JObj [(''title'', JStr ''T''), (''description'', JStr ''D''),
      (''estimatedDuration'', JStr ''45 min''), (''frequencyRecommendation'', JStr ''2x''),
      (''warmup'', JArr [JStr ''Esteira'']),
      (''exercises'', JArr [JObj [(''name'', JStr ''Supino''), (''sets'', JStr ''3''), (''reps'', JStr ''10''),
         (''rest'', JStr ''60s''), (''notes'', JStr ''Devagar'')]]),
      (''cooldown'', JArr [])]) = Some \<lparr>title = ''T'', description = ''D'', estimatedDuration = ''45 min'',
         frequencyRecommendation = ''2x'', warmup = [''Esteira''],
         exercises = [\<lparr>name = ''Supino'', sets = ''3'', reps = ''10'', rest = ''60s'',
           notes_text = ''Devagar'', imageUrl = None\<rparr>], cooldown = []\<rparr>"
    by (simp add: plan_of_json_def str_field_def exercise_of_json_def last_binding_def)
  show ?thesis
    using dec renderResult_refines [OF dec] by (simp add: plan_screen_def exercise_card_view_def)
qed

theorem renderResult_conforming_total_witness:
  "conforms workoutSchema (JObj [(''title'', JStr ''T''), (''description'', JStr ''D''),
      (''estimatedDuration'', JStr ''45 min''), (''frequencyRecommendation'', JStr ''2x''),
      (''warmup'', JArr []), (''exercises'', JArr []), (''cooldown'', JArr [])]) \<and>
   (\<exists>v. renderResult (JObj [(''title'', JStr ''T''), (''description'', JStr ''D''),
      (''estimatedDuration'', JStr ''45 min''), (''frequencyRecommendation'', JStr ''2x''),
      (''warmup'', JArr []), (''exercises'', JArr []), (''cooldown'', JArr [])]) (\<lambda>_. card_mount []) = Inr (Some v))"
proof -
  have c: "conforms workoutSchema (JObj [(''title'', JStr ''T''), (''description'', JStr ''D''),
      (''estimatedDuration'', JStr ''45 min''), (''frequencyRecommendation'', JStr ''2x''),
      (''warmup'', JArr []), (''exercises'', JArr []), (''cooldown'', JArr [])])"
    by (simp add: workoutSchema_def string_schema_def exerciseSchema_def last_binding_def)
  show ?thesis using c renderResult_conforming_total [OF c] by simp
qed

theorem renderResult_throws_without_warmup_witness:
  "truthy_json (JObj []) \<and> (\<forall>xs. json_get (JObj []) ''warmup'' \<noteq> Some (JArr xs)) \<and>
   (\<exists>e. renderResult (JObj []) (\<lambda>_. card_mount []) = Inl e)"
  using renderResult_throws_without_warmup [of "JObj []"] by simp

end
