(* ===== verification/Selection.thy ===== *)
theory Selection
  imports Wizard
begin

text \<open>
  The selection screens: \<open>src/components/SelectionCard.tsx\<close> and
  \<open>renderSelection\<close> of \<open>src/App.tsx\<close> (lines 77--104), with the three
  calls of lines 199--218 that give each selection step its title, options
  and \<open>onSelect\<close> handler.  A card's \<open>onClick\<close> is the wizard event the
  click raises.  \<open>onSelect\<close> receives the option's string and stores it as
  the enum member: a string enum member is its string at run time, so the
  member stored is the one whose value is that string (\<open>*_of\<close>).
\<close>

subsection \<open>Enum members from their strings\<close>

definition ExperienceLevel_of :: "string \<Rightarrow> ExperienceLevel option" where
  "ExperienceLevel_of v = find (\<lambda>l. ExperienceLevel_value l = v) [Iniciante, Intermediario, Avancado]"

definition FitnessGoal_of :: "string \<Rightarrow> FitnessGoal option" where
  "FitnessGoal_of v = find (\<lambda>g. FitnessGoal_value g = v)
     [Hipertrofia, PerdaGordura, Forca, Resistencia, Condicionamento]"

definition MuscleGroup_of :: "string \<Rightarrow> MuscleGroup option" where
  "MuscleGroup_of v = find (\<lambda>m. MuscleGroup_value m = v)
     [Peito, Costas, Pernas, Ombros, Biceps, Triceps, Abdomen, FullBody, UpperBody, LowerBody]"

subsection \<open>The card\<close>

text \<open>The class template of lines 14--20, byte for byte, and the icon
  wrapper of line 22, drawn only for a truthy \<open>icon\<close>.\<close>

definition selection_card_class :: "bool \<Rightarrow> string" where
  "selection_card_class selected =
     nl @ ''        cursor-pointer p-4 rounded-xl border-2 transition-all duration-200 flex flex-col'' @
     '' items-center justify-center gap-3 text-center h-full min-h-[120px]'' @ nl @ ''        '' @
     (if selected then ''border-primary bg-primary/10 text-white shadow-[0_0_15px_rgba(16,185,129,0.3)]''
      else ''border-slate-700 bg-surface text-slate-400 hover:border-slate-500 hover:text-white'') @
     nl @ ''      ''"

record SelectionCardView =
  scv_onClick :: "UiEvent option"
  scv_className :: string
  scv_icon :: "(string \<times> string) option"
  scv_label :: string

definition SelectionCard :: "string \<Rightarrow> bool \<Rightarrow> UiEvent option \<Rightarrow> string option \<Rightarrow> SelectionCardView" where
  "SelectionCard label selected onClick icon =
     \<lparr>scv_onClick = onClick, scv_className = selection_card_class selected,
      scv_icon = (if truthy_opt icon
                  then Some (''text-2xl '' @ (if selected then ''text-primary'' else ''text-slate-500''), the icon)
                  else None),
      scv_label = label\<rparr>"

subsection \<open>The selection screen\<close>

text \<open>Lines 77--104: the title, one card per option keyed by it and
  highlighted when it is the selected value, the back button, and the next
  button, disabled while nothing is selected and labelled by the step.\<close>

record SelectionScreen =
  ss_title :: string
  ss_cards :: "SelectionCardView list"
  ss_next_disabled :: bool
  ss_next_label :: string

definition renderSelection ::
  "AppStep \<Rightarrow> string \<Rightarrow> string list \<Rightarrow> string option \<Rightarrow> (string \<Rightarrow> UiEvent option) \<Rightarrow> SelectionScreen" where
  "renderSelection st heading options selected onSelect =
     \<lparr>ss_title = heading,
      ss_cards = map (\<lambda>opt. SelectionCard opt (selected = Some opt) (onSelect opt) None) options,
      ss_next_disabled = (\<not> truthy_opt selected),
      ss_next_label = (if st = SelectMuscle then ''Gerar Treino'' else ''Pr'' @ o_acute @ ''ximo'')\<rparr>"

text \<open>The \<open>onSelect\<close> handlers of lines 203, 210 and 217.\<close>

definition onSelect :: "AppStep \<Rightarrow> string \<Rightarrow> UiEvent option" where
  "onSelect st v =
     (case st of
        SelectLevel \<Rightarrow> map_option PickLevel (ExperienceLevel_of v)
      | SelectGoal \<Rightarrow> map_option PickGoal (FitnessGoal_of v)
      | SelectMuscle \<Rightarrow> map_option PickMuscle (MuscleGroup_of v)
      | _ \<Rightarrow> None)"

text \<open>The selection screen App draws for a state (lines 199--218).\<close>

definition selection_screen :: "AppState \<Rightarrow> SelectionScreen option" where
  "selection_screen s =
     (case render s of
        SelectionView heading opts sel _ \<Rightarrow> Some (renderSelection (step s) heading opts sel (onSelect (step s)))
      | _ \<Rightarrow> None)"

subsection \<open>Lemmas\<close>

lemma enum_members_values:
  "ExperienceLevel_values = map ExperienceLevel_value [Iniciante, Intermediario, Avancado]"
  "FitnessGoal_values = map FitnessGoal_value [Hipertrofia, PerdaGordura, Forca, Resistencia, Condicionamento]"
  "MuscleGroup_values = map MuscleGroup_value
     [Peito, Costas, Pernas, Ombros, Biceps, Triceps, Abdomen, FullBody, UpperBody, LowerBody]"
  by (simp_all add: ExperienceLevel_values_def FitnessGoal_values_def MuscleGroup_values_def)

lemma enum_values_distinct:
  "distinct ExperienceLevel_values" "distinct FitnessGoal_values" "distinct MuscleGroup_values"
  by (simp_all add: ExperienceLevel_values_def FitnessGoal_values_def MuscleGroup_values_def)

lemma enum_of_value [simp]:
  "ExperienceLevel_of (ExperienceLevel_value l) = Some l"
  "FitnessGoal_of (FitnessGoal_value g) = Some g"
  "MuscleGroup_of (MuscleGroup_value m) = Some m"
    apply (cases l; simp add: ExperienceLevel_of_def)
   apply (cases g; simp add: FitnessGoal_of_def)
  by (cases m; simp add: MuscleGroup_of_def)

lemma renderSelection_labels [simp]:
  "map scv_label (ss_cards (renderSelection st h opts sel f)) = opts"
  by (induction opts) (simp_all add: renderSelection_def SelectionCard_def)

lemma renderSelection_length [simp]:
  "length (ss_cards (renderSelection st h opts sel f)) = length opts"
  by (simp add: renderSelection_def)

lemma renderSelection_onClick:
  "k < length opts \<Longrightarrow> scv_onClick (ss_cards (renderSelection st h opts sel f) ! k) = f (opts ! k)"
  by (simp add: renderSelection_def SelectionCard_def)

lemma renderSelection_highlight:
  assumes "distinct opts" and "k < length opts"
  shows "map scv_className (ss_cards (renderSelection st h opts (Some (opts ! k)) f)) =
         map (\<lambda>i. selection_card_class (i = k)) [0..<length opts]"
  using map_index_eq [OF assms, of selection_card_class] by (simp add: renderSelection_def SelectionCard_def comp_def)

lemma enum_values_nonempty_set:
  "[] \<notin> set ExperienceLevel_values" "[] \<notin> set FitnessGoal_values" "[] \<notin> set MuscleGroup_values"
  by (auto simp: enum_members_values)

lemma renderSelection_pick:
  assumes "distinct opts" and "[] \<notin> set opts" and "k < length opts"
    and "f (opts ! k) = Some e"
    and "selection_screen (app (wizard_step s e)) = Some (renderSelection st h opts (Some (opts ! k)) f)"
  shows "\<exists>scr'. scv_onClick (ss_cards (renderSelection st h opts sel f) ! k) = Some e \<and>
     selection_screen (app (wizard_step s e)) = Some scr' \<and>
     map scv_label (ss_cards scr') = map scv_label (ss_cards (renderSelection st h opts sel f)) \<and>
     map scv_className (ss_cards scr') =
       map (\<lambda>i. selection_card_class (i = k)) [0..<length (ss_cards (renderSelection st h opts sel f))] \<and>
     \<not> ss_next_disabled scr'"
proof -
  have "opts ! k \<noteq> []" using nth_mem [OF assms(3)] assms(2) by auto
  then show ?thesis
    using assms renderSelection_highlight [OF assms(1,3)]
    by (simp add: renderSelection_onClick) (simp add: renderSelection_def)
qed

subsection \<open>Properties of the selection screens\<close>

text \<open>C31. On every selection screen the next button is disabled exactly
  when \<open>handleNext\<close> would do nothing: the screen never offers an advance
  the guard refuses, nor disables one it accepts.\<close>

theorem next_disabled_iff_noop:
  "selection_screen s = Some scr \<Longrightarrow> ss_next_disabled scr \<longleftrightarrow> handleNext s = (s, [])"
  by (cases s; cases "step s")
    (auto simp: selection_screen_def render_def renderSelection_def handleNext_def generate_start_def
      split: if_splits)

text \<open>C32. Clicking any card of a selection screen raises the pick of that
  card's option, which the screen offers; the screen drawn after it has the
  same cards with exactly the clicked one highlighted, and the next button
  enabled.\<close>

theorem selection_click_highlights:
  assumes scr: "selection_screen (app s) = Some scr" and k: "k < length (ss_cards scr)"
  shows "\<exists>e scr'. scv_onClick (ss_cards scr ! k) = Some e \<and> enabled s e \<and>
     selection_screen (app (wizard_step s e)) = Some scr' \<and>
     map scv_label (ss_cards scr') = map scv_label (ss_cards scr) \<and>
     map scv_className (ss_cards scr') = map (\<lambda>i. selection_card_class (i = k)) [0..<length (ss_cards scr)] \<and>
     \<not> ss_next_disabled scr'"
proof (cases "step (app s)")
  case SelectLevel
  let ?l = "[Iniciante, Intermediario, Avancado] ! k"
  have k3: "k < length ExperienceLevel_values"
    using scr k SelectLevel by (auto simp: selection_screen_def render_def)
  then have v: "ExperienceLevel_values ! k = ExperienceLevel_value ?l"
    unfolding enum_members_values by (simp only: length_map nth_map)
  show ?thesis
    using scr SelectLevel renderSelection_pick [OF enum_values_distinct(1) enum_values_nonempty_set(1) k3, of
        "onSelect SelectLevel" "PickLevel ?l" s]
    by (auto simp: selection_screen_def render_def v onSelect_def selectLevel_def)
next
  case SelectGoal
  let ?g = "[Hipertrofia, PerdaGordura, Forca, Resistencia, Condicionamento] ! k"
  have k3: "k < length FitnessGoal_values"
    using scr k SelectGoal by (auto simp: selection_screen_def render_def)
  then have v: "FitnessGoal_values ! k = FitnessGoal_value ?g"
    unfolding enum_members_values by (simp only: length_map nth_map)
  show ?thesis
    using scr SelectGoal renderSelection_pick [OF enum_values_distinct(2) enum_values_nonempty_set(2) k3, of
        "onSelect SelectGoal" "PickGoal ?g" s]
    by (auto simp: selection_screen_def render_def v onSelect_def selectGoal_def)
next
  case SelectMuscle
  let ?m = "[Peito, Costas, Pernas, Ombros, Biceps, Triceps, Abdomen, FullBody, UpperBody, LowerBody] ! k"
  have k3: "k < length MuscleGroup_values"
    using scr k SelectMuscle by (auto simp: selection_screen_def render_def)
  then have v: "MuscleGroup_values ! k = MuscleGroup_value ?m"
    unfolding enum_members_values by (simp only: length_map nth_map)
  show ?thesis
    using scr SelectMuscle renderSelection_pick [OF enum_values_distinct(3) enum_values_nonempty_set(3) k3, of
        "onSelect SelectMuscle" "PickMuscle ?m" s]
    by (auto simp: selection_screen_def render_def v onSelect_def selectMuscleGroup_def)
qed (insert scr, auto simp: selection_screen_def render_def split: if_splits)

theorem next_disabled_iff_noop_witness:
  "selection_screen \<lparr>step = SelectGoal, prefs = empty_prefs, workout = JNull, error = None\<rparr> =
     Some (renderSelection SelectGoal ''Qual seu objetivo principal?'' FitnessGoal_values None
       (onSelect SelectGoal)) \<and>
   ss_next_disabled (renderSelection SelectGoal ''Qual seu objetivo principal?'' FitnessGoal_values None
       (onSelect SelectGoal)) \<and>
   handleNext \<lparr>step = SelectGoal, prefs = empty_prefs, workout = JNull, error = None\<rparr> =
     (\<lparr>step = SelectGoal, prefs = empty_prefs, workout = JNull, error = None\<rparr>, [])"
proof -
  have scr: "selection_screen \<lparr>step = SelectGoal, prefs = empty_prefs, workout = JNull, error = None\<rparr> =
     Some (renderSelection SelectGoal ''Qual seu objetivo principal?'' FitnessGoal_values None
       (onSelect SelectGoal))"
    by (simp add: selection_screen_def render_def empty_prefs_def)
  have "ss_next_disabled (renderSelection SelectGoal ''Qual seu objetivo principal?'' FitnessGoal_values None
       (onSelect SelectGoal))"
    by (simp add: renderSelection_def)
  then show ?thesis using scr next_disabled_iff_noop [OF scr] by simp
qed

theorem selection_click_highlights_witness:
  "selection_screen \<lparr>step = SelectGoal, prefs = empty_prefs, workout = JNull, error = None\<rparr> =
     Some (renderSelection SelectGoal ''Qual seu objetivo principal?'' FitnessGoal_values None
       (onSelect SelectGoal)) \<and>
   1 < length (ss_cards (renderSelection SelectGoal ''Qual seu objetivo principal?'' FitnessGoal_values None
       (onSelect SelectGoal))) \<and>
   (\<exists>e scr'. scv_onClick (ss_cards (renderSelection SelectGoal ''Qual seu objetivo principal?''
        FitnessGoal_values None (onSelect SelectGoal)) ! 1) = Some e \<and>
     enabled \<lparr>app = \<lparr>step = SelectGoal, prefs = empty_prefs, workout = JNull, error = None\<rparr>, inflight = []\<rparr> e \<and>
     selection_screen (app (wizard_step
       \<lparr>app = \<lparr>step = SelectGoal, prefs = empty_prefs, workout = JNull, error = None\<rparr>, inflight = []\<rparr> e)) =
       Some scr' \<and>
     map scv_label (ss_cards scr') = map scv_label (ss_cards (renderSelection SelectGoal
       ''Qual seu objetivo principal?'' FitnessGoal_values None (onSelect SelectGoal))) \<and>
     map scv_className (ss_cards scr') = map (\<lambda>i. selection_card_class (i = 1)) [0..<length (ss_cards
       (renderSelection SelectGoal ''Qual seu objetivo principal?'' FitnessGoal_values None
         (onSelect SelectGoal)))] \<and>
     \<not> ss_next_disabled scr')"
proof -
  have scr: "selection_screen (app \<lparr>app = \<lparr>step = SelectGoal, prefs = empty_prefs, workout = JNull,
      error = None\<rparr>, inflight = []\<rparr>) =
     Some (renderSelection SelectGoal ''Qual seu objetivo principal?'' FitnessGoal_values None
       (onSelect SelectGoal))"
    by (simp add: selection_screen_def render_def empty_prefs_def)
  have k: "1 < length (ss_cards (renderSelection SelectGoal ''Qual seu objetivo principal?'' FitnessGoal_values None
       (onSelect SelectGoal)))"
    by (simp add: FitnessGoal_values_def)
  show ?thesis using scr k selection_click_highlights [OF scr k] by simp
qed

end
