(* ===== verification/Session.thy ===== *)
theory Session
  imports ResultScreen
begin

text \<open>
  The whole session: the wizard of \<open>App.tsx\<close> together with the
  \<open>ExerciseCard\<close>s its result screen mounts.  React mounts one card per
  exercise when the result screen is first drawn (lines 164--166) and
  unmounts them when the step leaves \<open>Result\<close>; an unmounted card's image
  fetch stays outstanding and settles later (the effect has no
  cancellation, only its \<open>isMounted\<close> flag).  \<open>shown\<close> are the cards on
  screen, \<open>torn\<close> the cards torn down with their fetches.  A card asks for
  the image of \<open>`${exercise.name}`\<close>, the template string of the name
  (\<open>js_template\<close>).
\<close>

subsection \<open>Template strings of JSON values\<close>

text \<open>\<open>String(v)\<close> of a parsed JSON value: arrays join their items with
  commas, \<open>null\<close> items giving the empty string; objects print as
  \<open>[object Object]\<close>; \<open>undefined\<close> prints as \<open>undefined\<close>.\<close>

fun js_string :: "json \<Rightarrow> string" and js_join :: "json list \<Rightarrow> string" where
  "js_string JNull = ''null''"
| "js_string (JBool b) = (if b then ''true'' else ''false'')"
| "js_string (JNum n) = int_str n"
| "js_string (JStr s) = s"
| "js_string (JArr xs) = js_join xs"
| "js_string (JObj kvs) = ''[object Object]''"
| "js_join [] = []"
| "js_join (x # xs) =
     (if x = JNull then [] else js_string x) @ (if xs = [] then [] else CHR '','' # js_join xs)"

definition js_template :: "json option \<Rightarrow> string" where
  "js_template v = (case v of None \<Rightarrow> ''undefined'' | Some j \<Rightarrow> js_string j)"

subsection \<open>The session\<close>

text \<open>The cards the result screen mounts for a stored plan: one per item of
  \<open>workout.exercises\<close>, when the screen renders.\<close>

definition result_cards :: "json \<Rightarrow> CardState list" where
  "result_cards plan =
     (case renderResult plan (\<lambda>_. card_mount []) of
        Inr (Some _) \<Rightarrow>
          (case json_get plan ''exercises'' of
             Some (JArr xs) \<Rightarrow> map (\<lambda>e. card_mount (js_template (json_get e ''name''))) xs
           | _ \<Rightarrow> [])
      | _ \<Rightarrow> [])"

record Session =
  wiz :: WizardSys
  shown :: "CardState list"
  torn :: "CardState list"

definition session_init :: Session where
  "session_init = \<lparr>wiz = wizard_init, shown = [], torn = []\<rparr>"

text \<open>A wizard event, with the mounting and unmounting of the cards it
  causes.\<close>

definition session_ui :: "UiEvent \<Rightarrow> Session \<Rightarrow> Session" where
  "session_ui e ss =
     (let w' = wizard_step (wiz ss) e
      in if step (app (wiz ss)) = Result \<and> step (app w') \<noteq> Result
         then ss\<lparr>wiz := w', shown := [], torn := torn ss @ map card_unmount (shown ss)\<rparr>
         else if step (app (wiz ss)) \<noteq> Result \<and> step (app w') = Result
         then ss\<lparr>wiz := w', shown := result_cards (workout (app w'))\<rparr>
         else ss\<lparr>wiz := w'\<rparr>)"

datatype SessionEvent = UI UiEvent | ShownSettled nat nat "string option"
  | TornSettled nat nat "string option"

fun session_enabled :: "Session \<Rightarrow> SessionEvent \<Rightarrow> bool" where
  "session_enabled ss (UI e) = enabled (wiz ss) e"
| "session_enabled ss (ShownSettled k i url) =
     (k < length (shown ss) \<and> card_enabled (shown ss ! k) (ImageSettled i url))"
| "session_enabled ss (TornSettled k i url) =
     (k < length (torn ss) \<and> card_enabled (torn ss ! k) (ImageSettled i url))"

fun session_step :: "Session \<Rightarrow> SessionEvent \<Rightarrow> Session" where
  "session_step ss (UI e) = session_ui e ss"
| "session_step ss (ShownSettled k i url) =
     ss\<lparr>shown := (shown ss)[k := fetchImage_settle i url (shown ss ! k)]\<rparr>"
| "session_step ss (TornSettled k i url) =
     ss\<lparr>torn := (torn ss)[k := fetchImage_settle i url (torn ss ! k)]\<rparr>"

inductive session_reachable :: "Session \<Rightarrow> bool" where
  init: "session_reachable session_init"
| step: "session_reachable ss \<Longrightarrow> session_enabled ss e \<Longrightarrow> session_reachable (session_step ss e)"

fun session_run :: "Session \<Rightarrow> SessionEvent list \<Rightarrow> Session option" where
  "session_run ss [] = Some ss"
| "session_run ss (e # es) = (if session_enabled ss e then session_run (session_step ss e) es else None)"

definition session_inv :: "Session \<Rightarrow> bool" where
  "session_inv ss \<longleftrightarrow>
     reachable (wiz ss) \<and>
     (\<forall>c \<in> set (shown ss). card_mounted c \<and> card_inv c) \<and>
     (\<forall>c \<in> set (torn ss). \<not> card_mounted c \<and> card_inv c) \<and>
     (shown ss \<noteq> [] \<longrightarrow> step (app (wiz ss)) = Result)"


subsection \<open>The session invariant\<close>

lemma card_inv_mount: "card_inv (card_mount n)"
  by (simp add: card_inv_def card_mount_def)

lemma result_cards_mounted: "c \<in> set (result_cards j) \<Longrightarrow> card_mounted c \<and> card_inv c"
  by (auto simp: result_cards_def card_inv_mount split: sum.splits option.splits json.splits)
    (auto simp: card_mount_def)

lemma settle_keeps_mounted [simp]: "card_mounted (fetchImage_settle i url c) = card_mounted c"
  by (simp add: fetchImage_settle_def Let_def)

lemma settle_card_inv:
  "card_inv c \<Longrightarrow> card_enabled c (ImageSettled i url) \<Longrightarrow> card_inv (fetchImage_settle i url c)"
  using card_step_inv [of c "ImageSettled i url"] by simp

lemma unmount_not_mounted [simp]: "card_mounted (card_unmount c) = False"
  by (simp add: card_unmount_def)

lemma unmount_card_inv: "card_inv c \<Longrightarrow> card_mounted c \<Longrightarrow> card_inv (card_unmount c)"
  using card_step_inv [of c Unmount] by simp

lemma session_ui_inv:
  assumes "session_inv ss" and "enabled (wiz ss) e"
  shows "session_inv (session_ui e ss)"
proof -
  have r: "reachable (wizard_step (wiz ss) e)"
    using assms by (auto simp: session_inv_def intro: reachable.step)
  show ?thesis
    using assms r
    by (auto simp: session_inv_def session_ui_def Let_def unmount_card_inv dest: result_cards_mounted)
qed

lemma session_step_inv:
  assumes "session_inv ss" and "session_enabled ss e"
  shows "session_inv (session_step ss e)"
proof (cases e)
  case (UI u)
  then show ?thesis using assms session_ui_inv by simp
next
  case (ShownSettled k i url)
  with assms have "card_inv (fetchImage_settle i url (shown ss ! k))"
    by (intro settle_card_inv) (auto simp: session_inv_def)
  with ShownSettled show ?thesis
    using assms by (auto simp: session_inv_def dest!: set_update_cases)
next
  case (TornSettled k i url)
  with assms have "card_inv (fetchImage_settle i url (torn ss ! k))"
    by (intro settle_card_inv) (auto simp: session_inv_def)
  with TornSettled show ?thesis
    using assms by (auto simp: session_inv_def dest!: set_update_cases)
qed


lemma session_inv_init: "session_inv session_init"
  by (simp add: session_inv_def session_init_def reachable.init)

lemma session_inv_of_reachable: "session_reachable ss \<Longrightarrow> session_inv ss"
  by (induction rule: session_reachable.induct) (auto intro: session_inv_init session_step_inv)

lemma session_run_reachable:
  "session_reachable ss \<Longrightarrow> session_run ss es = Some ss' \<Longrightarrow> session_reachable ss'"
proof (induction es arbitrary: ss)
  case (Cons e es)
  then show ?case by (auto intro: session_reachable.step split: if_splits)
qed simp

subsection \<open>Properties of the session\<close>

text \<open>C35. In every reachable session the wizard's state is reachable (so the
  wizard invariant holds), the cards on screen are mounted and exist only on
  the result step, the cards torn down are unmounted, and every card
  satisfies the card invariant.\<close>

theorem session_reachable_inv: "session_reachable ss \<Longrightarrow> session_inv ss"
proof (induction rule: session_reachable.induct)
  case init
  show ?case by (rule session_inv_init)
next
  case (step ss e)
  show ?case by (rule session_step_inv [OF step.IH step.hyps(2)])
qed

text \<open>C36. An image that arrives for a card the result screen has torn
  down (the user restarted) is dropped: the card's image and loading flag,
  the wizard and the cards on screen are all unchanged.\<close>

theorem torn_settle_dropped:
  assumes "session_reachable ss" and "session_enabled ss (TornSettled k i url)"
  shows "card_imageUrl (torn (session_step ss (TornSettled k i url)) ! k) = card_imageUrl (torn ss ! k) \<and>
    card_loading (torn (session_step ss (TornSettled k i url)) ! k) = card_loading (torn ss ! k) \<and>
    wiz (session_step ss (TornSettled k i url)) = wiz ss \<and>
    shown (session_step ss (TornSettled k i url)) = shown ss"
proof -
  have "\<not> card_mounted (torn ss ! k)"
    using session_inv_of_reachable [OF assms(1)] assms(2) by (auto simp: session_inv_def)
  then show ?thesis
    using assms(2) by (simp add: fetchImage_settle_def isMounted_def Let_def)
qed


lemma restart_session_run:
  "session_run session_init
      [UI ClickNext, UI (PickLevel Iniciante), UI ClickNext, UI (PickGoal Hipertrofia), UI ClickNext,
       UI (PickMuscle Peito), UI ClickNext, UI (PlanSettled (Inr (JObj [(''warmup'', JArr []), (''cooldown'', JArr []), (''exercises'', JArr [JObj [(''name'', JStr ''Supino'')]])]))), UI ClickBack] =
   Some \<lparr>wiz = wizard_init, shown = [], torn = [card_unmount (card_mount ''Supino'')]\<rparr>"
  by (simp add: session_init_def session_ui_def Let_def wizard_init_def init_AppState_def render_def
      wizard_simps handleBack_def AppStep_order empty_prefs_def result_cards_def renderResult_def js_child_def
      ExerciseCard_render_def js_template_def last_binding_def)

theorem session_reachable_inv_witness:
  "session_reachable \<lparr>wiz = wizard_init, shown = [], torn = [card_unmount (card_mount ''Supino'')]\<rparr> \<and>
   session_inv \<lparr>wiz = wizard_init, shown = [], torn = [card_unmount (card_mount ''Supino'')]\<rparr>"
proof -
  have r: "session_reachable \<lparr>wiz = wizard_init, shown = [], torn = [card_unmount (card_mount ''Supino'')]\<rparr>"
    by (rule session_run_reachable [OF session_reachable.init restart_session_run])
  show ?thesis using r session_reachable_inv [OF r] by simp
qed

theorem torn_settle_dropped_witness:
  "session_reachable \<lparr>wiz = wizard_init, shown = [], torn = [card_unmount (card_mount ''Supino'')]\<rparr> \<and>
   session_enabled \<lparr>wiz = wizard_init, shown = [], torn = [card_unmount (card_mount ''Supino'')]\<rparr>
     (TornSettled 0 0 (Some ''data:image/png;base64,AA'')) \<and>
   card_imageUrl (torn (session_step \<lparr>wiz = wizard_init, shown = [], torn = [card_unmount (card_mount ''Supino'')]\<rparr>
     (TornSettled 0 0 (Some ''data:image/png;base64,AA''))) ! 0) = None"
proof -
  have r: "session_reachable \<lparr>wiz = wizard_init, shown = [], torn = [card_unmount (card_mount ''Supino'')]\<rparr>"
    by (rule session_run_reachable [OF session_reachable.init restart_session_run])
  have en: "session_enabled \<lparr>wiz = wizard_init, shown = [], torn = [card_unmount (card_mount ''Supino'')]\<rparr>
     (TornSettled 0 0 (Some ''data:image/png;base64,AA''))"
    by (simp add: card_unmount_def card_mount_def)
  show ?thesis using r en torn_settle_dropped [OF r en] by (simp add: card_unmount_def card_mount_def)
qed

end
