(* ===== verification/Spec2Isabelle.thy ===== *)
theory Spec2Isabelle
  imports Wizard ExerciseCard ProgressBar ResultScreen Selection Session
begin

text \<open>
  \<^bold>\<open>Bruno's Fit: a verification development.\<close>

  The program (\<open>src/\<close>) is a React wizard that collects a fitness profile
  (experience level, goal, muscle group) on successive screens and asks a
  generative service for a workout plan, then for one illustration per
  exercise.  Its parts, and the theory that models each:

  \<^item> \<open>Prelude\<close>: the shared vocabulary: UTF-8 bytes of the Portuguese
    letters in the program's literals, JavaScript truthiness
    (\<open>truthy_opt\<close>) and template interpolation (\<open>interp_opt\<close>) of a
    \<open>string | null\<close>, last-binding lookup in association lists, and the
    theorem collections \<open>wizard_simps\<close> and \<open>gateway_simps\<close>.
  \<^item> \<open>Types\<close> models \<open>src/types.ts\<close>: the string enums with their values
    and the \<open>Object.values\<close> lists, the \<open>UserPreferences\<close>,
    \<open>Exercise\<close> and \<open>WorkoutPlan\<close> interfaces as records, the numeric enum
    \<open>AppStep\<close> with its numbers and its order (a \<open>linorder\<close> instance, as
    \<open>App.tsx\<close> compares steps as numbers).
  \<^item> \<open>Gateway\<close> models \<open>src/services/geminiService.ts\<close>: JSON values, the
    response schema \<open>workoutSchema\<close> and what it means to satisfy it, the
    reading of JSON as a plan, the prompt and request of
    \<open>generateWorkoutPlan\<close>, the handling of the answer
    (\<open>plan_response\<close>), and \<open>generateExerciseImage\<close>.  The service and
    \<open>JSON.parse\<close> are parameters of the definitions: the program only calls
    them, and a theorem about the gateway holds for every service.
  \<^item> \<open>Wizard\<close> models the state and handlers of \<open>src/App.tsx\<close>:
    \<open>AppState\<close> is the four \<open>useState\<close> hooks; \<open>handleNext\<close>,
    \<open>handleBack\<close>, the \<open>onSelect\<close> callbacks and the retry button are
    functions on it; \<open>generate\<close> is split at its \<open>await\<close> into
    \<open>generate_start\<close> (which returns the request it issues) and
    \<open>generate_finish\<close>; \<open>render\<close> is the screen drawn for a state and the
    buttons it offers.  \<open>WizardSys\<close> adds the requests in flight;
    \<open>wizard_step\<close> applies one event (a click offered by the screen, or the
    settling of a request with the gateway's outcome) and \<open>reachable\<close> is
    the inductive set of states the user and the service can produce.  The
    components meet at the \<open>UiEvent\<close> datatype: the outcome carried by
    \<open>PlanSettled\<close> is a value of \<open>GenError + json\<close>, the type of
    \<open>generateWorkoutPlan\<close>.
  \<^item> \<open>ExerciseCard\<close> models the image effect of
    \<open>src/components/ExerciseCard.tsx\<close>: the two hooks, one numbered
    instance of the \<open>useEffect\<close> per exercise name with its
    \<open>isMounted\<close> flag (live while the card is mounted and the instance is
    current), the fetches outstanding, the continuation after the
    \<open>await\<close> (\<open>fetchImage_settle\<close>), and the image section drawn
    (\<open>card_view\<close>).  It uses the gateway's \<open>generateExerciseImage\<close>.
  \<^item> \<open>ProgressBar\<close> models \<open>src/components/ProgressBar.tsx\<close> on
    JavaScript numbers (\<open>jsnum\<close>: rationals with \<open>NaN\<close> and the
    infinities) and where \<open>App.tsx\<close> draws it.
  \<^item> \<open>ResultScreen\<close> models \<open>renderResult\<close> of \<open>App.tsx\<close> and the body
    of \<open>ExerciseCard.tsx\<close> on the JSON value the wizard stored, with
    JavaScript's property reads (\<open>js_prop\<close>), \<open>Array.prototype.map\<close>
    (\<open>js_map\<close>) and React's rendering of children (\<open>react_node\<close>); a
    render that throws is \<open>Inl\<close> of a \<open>RenderError\<close>.  \<open>plan_screen\<close>
    is the screen a plan should give.  The image section of each card is
    drawn from its \<open>CardState\<close>.
  \<^item> \<open>Selection\<close> models \<open>src/components/SelectionCard.tsx\<close> and
    \<open>renderSelection\<close> of \<open>App.tsx\<close> with the three calls that give each
    selection step its options and \<open>onSelect\<close> handler; a card's
    \<open>onClick\<close> is the \<open>UiEvent\<close> it raises, so the screen composes
    with \<open>wizard_step\<close>.
  \<^item> \<open>Session\<close> composes the wizard with the cards of the result
    screen: React mounts one \<open>ExerciseCard\<close> per exercise when the result
    step is entered (\<open>result_cards\<close>) and unmounts them when it is left;
    the fetches of unmounted cards stay outstanding and settle later.
    \<open>session_step\<close> interleaves wizard events with the settling of the
    fetches of shown and torn-down cards.
  \<^item> This theory holds the properties that span the components.

  What is shown.  \<open>Wizard\<close>: the invariant \<open>wizard_inv\<close> holds in every
  reachable state (C1); outside the loading step and the null-plan dead
  end the user can always get back to the start screen with offered
  buttons (C2); the functional behaviour of advancing (C3, C4), restarting
  (C5), settling (C6); in the loading step the handlers are inert and the
  only possible event is the settling of the request (C7, C8); the numeric
  \<open>handleBack\<close> equals the explicit transition table (C9).
  \<open>Gateway\<close>: exactly when generation resolves and how it rejects (C10,
  C11); the schema describes exactly the JSON values that decode as plans
  (C12); the prompt determines the preferences (C13); which inline image is
  chosen and that image generation returns nothing or a PNG data URI (C14,
  C15).  Here: a \<open>null\<close> answer leads to a reachable dead end (C16, a
  finding), and the end-to-end success and failure scenarios of the
  specification (C17, C18).  \<open>ExerciseCard\<close>: the card invariant (C19),
  the spinner always ends (C20), a result of a stale instance changes
  nothing shown (C21), a live result is applied and a missing image is
  harmless (C22), and the hooks survive a change of exercise name, so the
  previous exercise's image stays on the renamed card (C23, a finding).
  \<open>ProgressBar\<close>: with at least two steps the width is the exact share
  and lies in 0..100 (C24), the wizard shows 0, 50 and 100 on its three
  selection screens (C25), and the width is \<open>NaN\<close> exactly on a one-step
  bar's first step (C26).  Here again: a selection screen highlights
  exactly one option once its value is chosen (C27).  \<open>ResultScreen\<close>:
  the render refines \<open>plan_screen\<close> on every value that decodes as a plan
  (C28), every answer that satisfies the schema renders without throwing
  (C29), and a truthy answer without a \<open>warmup\<close> array throws (C30).
  \<open>Selection\<close>: the next button is disabled exactly when \<open>handleNext\<close>
  would do nothing (C31), and a click on a card highlights exactly that
  card (C32).  Here: the answer \<open>{}\<close> is stored and the result screen then
  throws (C33, a finding), and after the success scenario the result
  screen shows the service's plan with every card's spinner (C34).
  \<open>Session\<close>: in every reachable session the wizard state is reachable,
  the shown cards are mounted and exist only on the result step, and the
  torn-down cards are unmounted (C35), so an image that arrives after a
  restart is dropped (C36).

  Bounds and fuel.  The one loop of the program, the search for an inline
  image part, runs over a finite list and is structural recursion on it
  (\<open>first_inline_image\<close>).  Runs of events are lists.  No machine
  integers occur: the step numbers are naturals bounded by 6 (the
  decrement of \<open>handleBack\<close> is taken on naturals, which is exact under
  its guard \<open>step > Intro\<close>), the badge \<open>{index + 1}\<close> is a natural, and
  the progress bar's doubles are exact rationals for its integer inputs
  (the divisor the wizard uses is 2), with \<open>NaN\<close> and the infinities kept.

  The wizard and the result screen are modelled separately: \<open>enabled\<close>
  offers the new-plan button whenever the stored plan is truthy, even when
  the render of that plan throws and React has unmounted the app (C30,
  C33 show when it does).  The wizard's properties therefore range over a
  superset of the states the program can really reach.

  Not modelled.  \<open>Button\<close>, whose source is not in the repository (its
  \<open>onClick\<close> and \<open>disabled\<close> props are modelled where App passes them);
  the static markup of the intro, loading and error screens and the icons;
  console logging; the SDK client and \<open>JSON.parse\<close>, which are parameters;
  the formatting of the bar's width as a CSS string (JavaScript's
  number-to-string conversion of doubles).  The plan for later work: a JSON
  text parser and printer with their round trip, so that the service's
  text answer is modelled down to characters.
\<close>

text \<open>A sample plan for the end-to-end witnesses.\<close>

definition sample_plan :: WorkoutPlan where
  "sample_plan = \<lparr>title = ''Peito'', description = ''Treino de peito'', estimatedDuration = ''45-60 min'',
     frequencyRecommendation = ''2x'', warmup = [''Esteira''],
     exercises = [\<lparr>name = ''Supino'', sets = ''3-4'', reps = ''8-12'', rest = ''60-90s'',
       notes_text = ''Controle a descida'', imageUrl = None\<rparr>],
     cooldown = [''Alongamento'']\<rparr>"

lemma success_run:
  assumes "service (plan_request loading_prefs) = Inr response" and "response_text response = Some t"
    and "t \<noteq> []" and "parse t = Some j"
  shows "wizard_run wizard_init
      [ClickNext, PickLevel Iniciante, ClickNext, PickGoal Hipertrofia, ClickNext, PickMuscle Peito, ClickNext,
       PlanSettled (generateWorkoutPlan service parse loading_prefs)] =
    Some \<lparr>app = \<lparr>step = Result, prefs = loading_prefs, workout = j, error = None\<rparr>, inflight = []\<rparr>"
proof -
  have gen: "generateWorkoutPlan service parse loading_prefs = Inr j"
    using assms by (auto simp: generateWorkoutPlan_def plan_response_Inr_iff)
  show ?thesis
    using gen [unfolded loading_prefs_def]
    by (simp add: wizard_init_def init_AppState_def render_def wizard_simps empty_prefs_def loading_prefs_def)
qed

text \<open>C16. A service answer whose text is the JSON literal \<open>null\<close> passes
  every check of \<open>generateWorkoutPlan\<close> although it does not satisfy the
  response schema; the wizard then enters the result step with a falsy plan,
  draws nothing and offers no action at all: a reachable dead end.\<close>

theorem null_plan_dead_end:
  "generateWorkoutPlan (\<lambda>_. Inr \<lparr>candidates = None, response_text = Some ''null''\<rparr>)
      (\<lambda>t. if t = ''null'' then Some JNull else None) loading_prefs = Inr JNull \<and>
   \<not> conforms workoutSchema JNull \<and>
   reachable (wizard_step \<lparr>app = \<lparr>step = Loading, prefs = loading_prefs, workout = JNull, error = None\<rparr>,
      inflight = [loading_prefs]\<rparr> (PlanSettled (Inr JNull))) \<and>
   step (app (wizard_step \<lparr>app = \<lparr>step = Loading, prefs = loading_prefs, workout = JNull, error = None\<rparr>,
      inflight = [loading_prefs]\<rparr> (PlanSettled (Inr JNull)))) = Result \<and>
   render (app (wizard_step \<lparr>app = \<lparr>step = Loading, prefs = loading_prefs, workout = JNull, error = None\<rparr>,
      inflight = [loading_prefs]\<rparr> (PlanSettled (Inr JNull)))) = NoView \<and>
   (\<forall>e. \<not> enabled (wizard_step \<lparr>app = \<lparr>step = Loading, prefs = loading_prefs, workout = JNull, error = None\<rparr>,
      inflight = [loading_prefs]\<rparr> (PlanSettled (Inr JNull))) e)"
proof -
  let ?s = "\<lparr>app = \<lparr>step = Loading, prefs = loading_prefs, workout = JNull, error = None\<rparr>,
      inflight = [loading_prefs]\<rparr>"
  have gen: "generateWorkoutPlan (\<lambda>_. Inr \<lparr>candidates = None, response_text = Some ''null''\<rparr>)
      (\<lambda>t. if t = ''null'' then Some JNull else None) loading_prefs = Inr JNull"
    by (simp add: generateWorkoutPlan_def plan_response_def)
  have nc: "\<not> conforms workoutSchema JNull" by (simp add: workoutSchema_def)
  have r: "reachable (wizard_step ?s (PlanSettled (Inr JNull)))"
    by (rule reachable.step [OF reachable_loading]) simp
  have dead: "\<not> enabled (wizard_step ?s (PlanSettled (Inr JNull))) e" for e
    by (cases e) (simp_all add: generate_finish_def render_def)
  show ?thesis using gen nc r dead by (simp add: generate_finish_def render_def)
qed

text \<open>C17. End-to-end success: choosing Iniciante, Hipertrofia and Peito
  and receiving a plan encoded under the schema leads, through offered
  actions only, to the result step with a stored plan that decodes to the
  service's plan, and the new-plan button is offered.\<close>

theorem scenario_success:
  assumes "service (plan_request loading_prefs) = Inr response" and "response_text response = Some t"
    and "t \<noteq> []" and "parse t = Some (json_of_plan p)"
  shows "\<exists>s. wizard_run wizard_init
      [ClickNext, PickLevel Iniciante, ClickNext, PickGoal Hipertrofia, ClickNext, PickMuscle Peito, ClickNext,
       PlanSettled (generateWorkoutPlan service parse loading_prefs)] = Some s \<and>
    reachable s \<and> step (app s) = Result \<and> plan_of_json (workout (app s)) = Some (without_images p) \<and>
    enabled s ClickBack"
proof -
  let ?s = "\<lparr>app = \<lparr>step = Result, prefs = loading_prefs, workout = json_of_plan p, error = None\<rparr>,
     inflight = []\<rparr>"
  have run: "wizard_run wizard_init
      [ClickNext, PickLevel Iniciante, ClickNext, PickGoal Hipertrofia, ClickNext, PickMuscle Peito, ClickNext,
       PlanSettled (generateWorkoutPlan service parse loading_prefs)] = Some ?s"
    using success_run [of service response t parse "json_of_plan p", OF assms] .
  have "reachable ?s" by (rule wizard_run_reachable [OF reachable.init run])
  moreover have "enabled ?s ClickBack" by (simp add: render_def json_of_plan_def)
  ultimately show ?thesis using run json_of_plan_decodes [of p] by auto
qed

text \<open>C18. End-to-end failure: whichever way generation rejects (network
  error, empty answer, text that is not JSON), the same run ends in the
  error step showing the fixed retry message, with no plan stored and the
  retry button offered.\<close>

theorem scenario_failure:
  assumes "generateWorkoutPlan service parse loading_prefs = Inl e"
  shows "\<exists>s. wizard_run wizard_init
      [ClickNext, PickLevel Iniciante, ClickNext, PickGoal Hipertrofia, ClickNext, PickMuscle Peito, ClickNext,
       PlanSettled (generateWorkoutPlan service parse loading_prefs)] = Some s \<and>
    step (app s) = Error \<and> error (app s) = Some generation_failed_msg \<and> workout (app s) = JNull \<and>
    render (app s) = ErrorView (Some generation_failed_msg) \<and> enabled s ClickRetry"
  using assms [unfolded loading_prefs_def]
  by (simp add: wizard_init_def init_AppState_def render_def wizard_simps empty_prefs_def loading_prefs_def)

theorem scenario_success_witness:
  "\<exists>s. wizard_run wizard_init
      [ClickNext, PickLevel Iniciante, ClickNext, PickGoal Hipertrofia, ClickNext, PickMuscle Peito, ClickNext,
       PlanSettled (generateWorkoutPlan (\<lambda>_. Inr \<lparr>candidates = None, response_text = Some ''{...}''\<rparr>)
         (\<lambda>_. Some (json_of_plan sample_plan)) loading_prefs)] = Some s \<and>
    reachable s \<and> step (app s) = Result \<and> plan_of_json (workout (app s)) = Some (without_images sample_plan) \<and>
    enabled s ClickBack"
  by (rule scenario_success [of "\<lambda>_. Inr \<lparr>candidates = None, response_text = Some ''{...}''\<rparr>"
        "\<lparr>candidates = None, response_text = Some ''{...}''\<rparr>" "''{...}''"
        "\<lambda>_. Some (json_of_plan sample_plan)" sample_plan]) simp_all

theorem scenario_failure_witness:
  "\<exists>s. wizard_run wizard_init
      [ClickNext, PickLevel Iniciante, ClickNext, PickGoal Hipertrofia, ClickNext, PickMuscle Peito, ClickNext,
       PlanSettled (generateWorkoutPlan (\<lambda>_. Inl ''fetch failed'') (\<lambda>_. None) loading_prefs)] = Some s \<and>
    step (app s) = Error \<and> error (app s) = Some generation_failed_msg \<and> workout (app s) = JNull \<and>
    render (app s) = ErrorView (Some generation_failed_msg) \<and> enabled s ClickRetry"
  by (rule scenario_failure [of "\<lambda>_. Inl ''fetch failed''" "\<lambda>_. None" "ServiceError ''fetch failed''"])
    (simp add: generateWorkoutPlan_def plan_response_def)

text \<open>C27. On a selection screen with a chosen value, exactly one option
  equals it, so exactly one \<open>SelectionCard\<close> receives
  \<open>selected={selected === opt}\<close>: the enum values listed by
  \<open>Object.values\<close> are pairwise distinct.\<close>

theorem selection_highlight_unique:
  "render s = SelectionView heading opts (Some v) label \<Longrightarrow> length (filter (\<lambda>opt. opt = v) opts) = 1"
proof (cases "step s")
  case SelectLevel
  moreover assume "render s = SelectionView heading opts (Some v) label"
  ultimately obtain l where "opts = ExperienceLevel_values" "v = ExperienceLevel_value l"
    by (auto simp: render_def)
  then show ?thesis by (cases l) (simp_all add: ExperienceLevel_values_def)
next
  case SelectGoal
  moreover assume "render s = SelectionView heading opts (Some v) label"
  ultimately obtain g where "opts = FitnessGoal_values" "v = FitnessGoal_value g"
    by (auto simp: render_def)
  then show ?thesis by (cases g) (simp_all add: FitnessGoal_values_def)
next
  case SelectMuscle
  moreover assume "render s = SelectionView heading opts (Some v) label"
  ultimately obtain m where "opts = MuscleGroup_values" "v = MuscleGroup_value m"
    by (auto simp: render_def)
  then show ?thesis by (cases m) (simp_all add: MuscleGroup_values_def)
qed (simp_all add: render_def split: if_splits)

theorem selection_highlight_unique_witness:
  "render \<lparr>step = SelectGoal, prefs = loading_prefs, workout = JNull, error = None\<rparr> =
     SelectionView ''Qual seu objetivo principal?'' FitnessGoal_values (Some ''Hipertrofia Muscular'')
       (''Pr'' @ o_acute @ ''ximo'') \<and>
   length (filter (\<lambda>opt. opt = ''Hipertrofia Muscular'') FitnessGoal_values) = 1"
proof -
  have r: "render \<lparr>step = SelectGoal, prefs = loading_prefs, workout = JNull, error = None\<rparr> =
     SelectionView ''Qual seu objetivo principal?'' FitnessGoal_values (Some ''Hipertrofia Muscular'')
       (''Pr'' @ o_acute @ ''ximo'')"
    by (simp add: render_def loading_prefs_def)
  show ?thesis using r selection_highlight_unique [OF r] by simp
qed


text \<open>C33. A service answer whose text is \<open>{}\<close> is valid JSON that does
  not satisfy the response schema.  The code does not reject it: the run of
  the specification's scenario stores it and enters the result step, the
  wizard invariant holds, and every render of the result screen throws a
  \<open>TypeError\<close> at \<open>workout.warmup.map\<close>, so React unmounts the app
  instead of showing the error step the specification requires.\<close>

theorem empty_object_answer_crashes:
  "\<exists>s. wizard_run wizard_init
      [ClickNext, PickLevel Iniciante, ClickNext, PickGoal Hipertrofia, ClickNext, PickMuscle Peito, ClickNext,
       PlanSettled (generateWorkoutPlan (\<lambda>_. Inr \<lparr>candidates = None, response_text = Some ''{}''\<rparr>)
         (\<lambda>t. if t = ''{}'' then Some (JObj []) else None) loading_prefs)] = Some s \<and>
    reachable s \<and> step (app s) = Result \<and> render (app s) = ResultView (JObj []) \<and>
    \<not> conforms workoutSchema (workout (app s)) \<and>
    (\<forall>cards. renderResult (workout (app s)) cards = Inl (TypeError ''map''))"
proof -
  let ?s = "\<lparr>app = \<lparr>step = Result, prefs = loading_prefs, workout = JObj [], error = None\<rparr>, inflight = []\<rparr>"
  have run: "wizard_run wizard_init
      [ClickNext, PickLevel Iniciante, ClickNext, PickGoal Hipertrofia, ClickNext, PickMuscle Peito, ClickNext,
       PlanSettled (generateWorkoutPlan (\<lambda>_. Inr \<lparr>candidates = None, response_text = Some ''{}''\<rparr>)
         (\<lambda>t. if t = ''{}'' then Some (JObj []) else None) loading_prefs)] = Some ?s"
    by (rule success_run [of "\<lambda>_. Inr \<lparr>candidates = None, response_text = Some ''{}''\<rparr>"
        "\<lparr>candidates = None, response_text = Some ''{}''\<rparr>" "''{}''"
        "\<lambda>t. if t = ''{}'' then Some (JObj []) else None"]) simp_all
  have "reachable ?s" by (rule wizard_run_reachable [OF reachable.init run])
  moreover have "renderResult (JObj []) cards = Inl (TypeError ''map'')" for cards
    by (simp add: renderResult_def js_child_def)
  moreover have "\<not> conforms workoutSchema (JObj [])" by (simp add: workoutSchema_def)
  ultimately show ?thesis using run by (simp add: render_def)
qed

text \<open>C34. After the successful scenario, the result screen the wizard
  draws shows exactly the plan the service sent, with the cards mounted for
  its exercises (each asking for the image of its exercise's name) all
  showing their spinner.\<close>

theorem success_screen:
  assumes "service (plan_request loading_prefs) = Inr response" and "response_text response = Some t"
    and "t \<noteq> []" and "parse t = Some (json_of_plan p)"
  shows "\<exists>s. wizard_run wizard_init
      [ClickNext, PickLevel Iniciante, ClickNext, PickGoal Hipertrofia, ClickNext, PickMuscle Peito, ClickNext,
       PlanSettled (generateWorkoutPlan service parse loading_prefs)] = Some s \<and>
    render (app s) = ResultView (workout (app s)) \<and>
    renderResult (workout (app s)) (\<lambda>i. card_mount (name (exercises p ! i))) =
      Inr (Some (plan_screen (without_images p) (\<lambda>i. card_mount (name (exercises p ! i))))) \<and>
    map ec_image (rs_cards (plan_screen (without_images p) (\<lambda>i. card_mount (name (exercises p ! i))))) =
      replicate (length (exercises p)) Spinner"
proof -
  have run: "wizard_run wizard_init
      [ClickNext, PickLevel Iniciante, ClickNext, PickGoal Hipertrofia, ClickNext, PickMuscle Peito, ClickNext,
       PlanSettled (generateWorkoutPlan service parse loading_prefs)] =
    Some \<lparr>app = \<lparr>step = Result, prefs = loading_prefs, workout = json_of_plan p, error = None\<rparr>, inflight = []\<rparr>"
    by (rule success_run [of service response t parse "json_of_plan p", OF assms])
  have "map ec_image (rs_cards (plan_screen (without_images p) (\<lambda>i. card_mount (name (exercises p ! i))))) =
      replicate (length (exercises p)) Spinner"
    by (simp add: plan_screen_def exercise_card_view_def card_view_def card_mount_def without_images_def
        comp_def split_def map_replicate_const)
  then show ?thesis
    using run renderResult_decoded [OF json_of_plan_decodes [of p]]
    by (simp add: render_def json_of_plan_def)
qed

theorem success_screen_witness:
  "\<exists>s. wizard_run wizard_init
      [ClickNext, PickLevel Iniciante, ClickNext, PickGoal Hipertrofia, ClickNext, PickMuscle Peito, ClickNext,
       PlanSettled (generateWorkoutPlan (\<lambda>_. Inr \<lparr>candidates = None, response_text = Some ''{...}''\<rparr>)
         (\<lambda>_. Some (json_of_plan sample_plan)) loading_prefs)] = Some s \<and>
    render (app s) = ResultView (workout (app s)) \<and>
    renderResult (workout (app s)) (\<lambda>i. card_mount (name (exercises sample_plan ! i))) =
      Inr (Some (plan_screen (without_images sample_plan) (\<lambda>i. card_mount (name (exercises sample_plan ! i))))) \<and>
    map ec_image (rs_cards (plan_screen (without_images sample_plan)
        (\<lambda>i. card_mount (name (exercises sample_plan ! i))))) =
      replicate (length (exercises sample_plan)) Spinner"
  by (rule success_screen [of "\<lambda>_. Inr \<lparr>candidates = None, response_text = Some ''{...}''\<rparr>"
        "\<lparr>candidates = None, response_text = Some ''{...}''\<rparr>" "''{...}''"
        "\<lambda>_. Some (json_of_plan sample_plan)" sample_plan]) simp_all

end
